theory Spec2Isabelle
  imports Main "HOL-Library.Sublist" "HOL-Library.AList"
begin

section \<open>JavaScript strings\<close>

text \<open>
  The embedding follows \<^verbatim>\<open>packages/create-divi-extension/CreateDiviExtension.js\<close>.
  A JavaScript string is modelled as a \<^typ>\<open>string\<close>; the names the program handles
  (npm package names, version specifiers, directory entries) are ASCII. Every string
  method the program calls is written out here with the result JavaScript gives at the
  edges (an index out of range reads \<^verbatim>\<open>undefined\<close>, \<^verbatim>\<open>indexOf\<close> answers -1).
\<close>

text \<open>\<^verbatim>\<open>s.indexOf(t)\<close>: the first position at which \<open>t\<close> occurs in \<open>s\<close>, or -1.\<close>

fun indexOfFrom :: "nat \<Rightarrow> string \<Rightarrow> string \<Rightarrow> int" where
  "indexOfFrom i [] t = (if t = [] then int i else - 1)"
| "indexOfFrom i (c # cs) t =
     (if prefix t (c # cs) then int i else indexOfFrom (Suc i) cs t)"

definition indexOf :: "string \<Rightarrow> string \<Rightarrow> int" where
  "indexOf s t = indexOfFrom 0 s t"

text \<open>\<^verbatim>\<open>s[i]\<close>: the character at index \<open>i\<close>, \<^verbatim>\<open>undefined\<close> (here \<open>None\<close>) out of range.\<close>

definition charAtIndex :: "string \<Rightarrow> int \<Rightarrow> char option" where
  "charAtIndex s i = (if 0 \<le> i \<and> i < int (length s) then Some (s ! nat i) else None)"

text \<open>\<^verbatim>\<open>['-', '_'].includes(x)\<close>, where \<open>x\<close> may be \<^verbatim>\<open>undefined\<close>.\<close>

definition isSeparator :: "char option \<Rightarrow> bool" where
  "isSeparator x = (x = Some CHR ''-'' \<or> x = Some CHR ''_'')"

text \<open>
  \<^verbatim>\<open>s.substring(a, b)\<close> for non-negative arguments: both are clamped to the length and
  swapped when \<open>a\<close> is the larger.
\<close>

definition substring :: "string \<Rightarrow> nat \<Rightarrow> nat \<Rightarrow> string" where
  "substring s a b =
     (let a' = min a (length s); b' = min b (length s);
          lo = min a' b'; hi = max a' b'
      in take (hi - lo) (drop lo s))"

text \<open>\<^verbatim>\<open>toLowerCase\<close> and \<^verbatim>\<open>toUpperCase\<close> on ASCII text.\<close>

definition upperLetters :: string where
  "upperLetters = ''ABCDEFGHIJKLMNOPQRSTUVWXYZ''"

definition lowerLetters :: string where
  "lowerLetters = ''abcdefghijklmnopqrstuvwxyz''"

definition lowerChar :: "char \<Rightarrow> char" where
  "lowerChar c = (case map_of (zip upperLetters lowerLetters) c of Some d \<Rightarrow> d | None \<Rightarrow> c)"

definition upperChar :: "char \<Rightarrow> char" where
  "upperChar c = (case map_of (zip lowerLetters upperLetters) c of Some d \<Rightarrow> d | None \<Rightarrow> c)"

definition toLowerCase :: "string \<Rightarrow> string" where
  "toLowerCase s = map lowerChar s"

definition toUpperCase :: "string \<Rightarrow> string" where
  "toUpperCase s = map upperChar s"

text \<open>
  The line terminators of a regular expression: \<^verbatim>\<open>.\<close> matches none of them, and with
  the \<^verbatim>\<open>m\<close> flag \<^verbatim>\<open>^\<close> matches after each.
\<close>

definition lineTerminator :: "char \<Rightarrow> bool" where
  "lineTerminator c = (c = CHR 0x0A \<or> c = CHR 0x0D)"

section \<open>Template token substitution: the prefix\<close>

text \<open>
  \<^verbatim>\<open>appName.replace(/^divi/igm, '')\<close>. The flags are \<^verbatim>\<open>i\<close> (letters match in either
  case), \<^verbatim>\<open>g\<close> (every match is replaced) and \<^verbatim>\<open>m\<close> (\<^verbatim>\<open>^\<close> matches at the start of the
  text and after every line terminator). The flag of \<open>replaceDivi\<close> says whether the
  current position is the start of a line.
\<close>

definition matchesDivi :: "string \<Rightarrow> bool" where
  "matchesDivi s = (toLowerCase (take 4 s) = ''divi'')"

fun replaceDivi :: "bool \<Rightarrow> string \<Rightarrow> string" where
  "replaceDivi bol [] = []"
| "replaceDivi bol (c # cs) =
     (if bol \<and> matchesDivi (c # cs) then replaceDivi False (drop 3 cs)
      else c # replaceDivi (lineTerminator c) cs)"

record templateContext =
  prefix_lc :: string
  prefix_uc :: string
  prefix_tc :: string

text \<open>
  The first lines of \<^verbatim>\<open>finalize_extension_files\<close>, up to the constants \<^verbatim>\<open>prefix\<close>
  (\<open>prefix_lc\<close>), \<^verbatim>\<open>PREFIX\<close> (\<open>prefix_uc\<close>) and \<^verbatim>\<open>Prefix\<close> (\<open>prefix_tc\<close>);
  \<open>truncatedPrefix\<close> is the value of \<^verbatim>\<open>prefix\<close> that the function prints.
  \<^verbatim>\<open>charAt(0)\<close> is the empty string on an empty string, and \<^verbatim>\<open>slice(1)\<close> drops one
  character.
\<close>

definition strippedName :: "string \<Rightarrow> string" where
  "strippedName appName = replaceDivi True appName"

definition truncatedPrefix :: "string \<Rightarrow> string" where
  "truncatedPrefix appName =
     (let end = 4;
          prefix0 = strippedName appName;
          start = (if isSeparator (charAtIndex prefix0 0) then 1 else 0)
      in toLowerCase (substring prefix0 start end))"

definition derivePrefix :: "string \<Rightarrow> templateContext" where
  "derivePrefix appName =
     (let prefix1 = truncatedPrefix appName;
          prefix2 = (if isSeparator (charAtIndex prefix1 (int (length prefix1) - 1))
                     then substring prefix1 0 (length prefix1 - 1) else prefix1);
          PREFIX = toUpperCase prefix2;
          Prefix = take 1 PREFIX @ drop 1 prefix2
      in \<lparr>prefix_lc = prefix2, prefix_uc = PREFIX, prefix_tc = Prefix\<rparr>)"

section \<open>The world outside the program\<close>

text \<open>
  The target directory is a list of named entries, in the order \<^verbatim>\<open>readdirSync\<close> lists
  them; the manifest \<^verbatim>\<open>package.json\<close> carries its parsed content, every other entry is
  opaque. A JavaScript object with string values (\<^verbatim>\<open>dependencies\<close>) is an association
  list in insertion order.
\<close>

record manifest =
  pkg_name :: string
  pkg_version :: string
  pkg_private :: bool
  dependencies :: "(string \<times> string) list option"
  devDependencies :: "(string \<times> string) list option"

datatype node = Manifest manifest | Other

type_synonym listing = "(string \<times> node) list"

datatype effect =
    Log string
  | EnsureDir string
  | WriteFile string
  | Chdir string
  | DnsLookup string
  | Spawn string "string list"
  | Remove string
  | Move string string
  | RunInit string

record world =
  dir :: "listing option"
  trace :: "effect list"

text \<open>
  How a step of the program ends: a value (a returned value or a resolved promise), a
  rejected promise or an exception thrown inside a promise callback (\<open>Reject\<close>, which a
  later \<^verbatim>\<open>.catch\<close> receives), \<^verbatim>\<open>process.exit(n)\<close> (which ends the process on the spot, so
  that no later callback runs), or an exception thrown outside every promise callback
  or an \<^verbatim>\<open>error\<close> event without a listener (\<open>Uncaught\<close>, which no \<^verbatim>\<open>.catch\<close> of the
  program receives: the process dies).
\<close>

datatype reason = CommandFailed string | UnexpectedError string

datatype 'a step = Resolve 'a | Reject reason | ProcessExit nat | Uncaught string

type_synonym 'a io = "world \<Rightarrow> 'a step \<times> world"

definition resolve :: "'a \<Rightarrow> 'a io" where
  "resolve x w = (Resolve x, w)"

definition thenIO :: "'a io \<Rightarrow> ('a \<Rightarrow> 'b io) \<Rightarrow> 'b io" where
  "thenIO m f w =
     (case m w of
        (Resolve x, w') \<Rightarrow> f x w'
      | (Reject r, w') \<Rightarrow> (Reject r, w')
      | (ProcessExit n, w') \<Rightarrow> (ProcessExit n, w')
      | (Uncaught x, w') \<Rightarrow> (Uncaught x, w'))"

definition catchIO :: "'a io \<Rightarrow> (reason \<Rightarrow> 'a io) \<Rightarrow> 'a io" where
  "catchIO m h w =
     (case m w of
        (Resolve x, w') \<Rightarrow> (Resolve x, w')
      | (Reject r, w') \<Rightarrow> h r w'
      | (ProcessExit n, w') \<Rightarrow> (ProcessExit n, w')
      | (Uncaught x, w') \<Rightarrow> (Uncaught x, w'))"

definition emit :: "effect \<Rightarrow> world \<Rightarrow> world" where
  "emit x w = w\<lparr>trace := trace w @ [x]\<rparr>"

definition console :: "string \<Rightarrow> world \<Rightarrow> world" where
  "console msg w = emit (Log msg) w"

text \<open>
  The libraries and the machine the program calls are parameters, collected in \<open>env\<close>:
  \<^item> \<open>path_resolve\<close>, \<open>path_basename\<close>, \<open>path_dirname\<close>, \<open>path_join\<close>: the \<^verbatim>\<open>path\<close> module
    (\<^verbatim>\<open>path.resolve(root, '..')\<close> is taken as \<open>path_dirname root\<close>);
  \<^item> \<open>validateProjectName\<close>: the \<^verbatim>\<open>validate-npm-package-name\<close> package;
  \<^item> \<open>process_version\<close>, \<open>process_cwd\<close>, \<open>script_dirname\<close>: \<^verbatim>\<open>process.version\<close>,
    \<^verbatim>\<open>process.cwd()\<close> at the start and \<^verbatim>\<open>__dirname\<close>;
  \<^item> \<open>semver_valid\<close> (the normalised version, \<open>None\<close> for \<^verbatim>\<open>null\<close>), \<open>semver_validRange\<close>
    (whether the answer is truthy), \<open>semver_satisfies\<close>, \<open>semver_gte\<close> (\<open>None\<close> when it
    throws): the \<^verbatim>\<open>semver\<close> package;
  \<^item> \<open>yarnpkg_version\<close>, \<open>npm_version\<close>: the output of \<^verbatim>\<open>yarnpkg --version\<close> and of
    \<^verbatim>\<open>npm --version\<close>, \<open>None\<close> when \<^verbatim>\<open>execSync\<close> throws;
  \<^item> \<open>stream_error\<close>: the \<^verbatim>\<open>error\<close> event of the stream that \<^verbatim>\<open>fs.createReadStream\<close> or
    \<^verbatim>\<open>hyperquest\<close> opens on the archive, \<open>None\<close> when the stream emits none (a local path
    that does not exist emits \<^verbatim>\<open>ENOENT\<close>);
  \<^item> \<open>read_archive\<close>: the temporary directory, the extraction of the archive and the
    read of the declared name (\<^verbatim>\<open>tmp\<close>, \<^verbatim>\<open>tar-pack\<close>, \<^verbatim>\<open>require\<close>);
  \<^item> \<open>dns_lookup\<close>: the error \<^verbatim>\<open>dns.lookup\<close> hands to its callback, \<open>None\<close> for \<^verbatim>\<open>null\<close>;
  \<^item> \<open>spawn_child\<close>: the package manager, with its exit code and what it leaves in the
    target directory;
  \<^item> \<open>installed_engines\<close>: the \<^verbatim>\<open>engines.node\<close> entry of the installed package's
    manifest, \<open>None\<close> when \<^verbatim>\<open>require\<close> throws;
  \<^item> \<open>init_script\<close>: \<^verbatim>\<open>scripts/init.js\<close> of the installed package;
  \<^item> \<open>read_file\<close>: the text of a scaffold file, \<open>None\<close> when \<^verbatim>\<open>readFileSync\<close> throws.

  Console output is recorded with its text; the colouring by \<^verbatim>\<open>chalk\<close> is left out and
  the long advisory messages are cut to their first sentence.
\<close>

record validation =
  validForNewPackages :: bool
  errors :: "string list option"
  warnings :: "string list option"

record env =
  path_resolve :: "string \<Rightarrow> string"
  path_basename :: "string \<Rightarrow> string"
  path_dirname :: "string \<Rightarrow> string"
  path_join :: "string \<Rightarrow> string \<Rightarrow> string"
  validateProjectName :: "string \<Rightarrow> validation"
  process_version :: string
  process_cwd :: string
  script_dirname :: string
  semver_valid :: "string option \<Rightarrow> string option"
  semver_validRange :: "string \<Rightarrow> bool"
  semver_satisfies :: "string \<Rightarrow> string \<Rightarrow> bool"
  semver_gte :: "string \<Rightarrow> string \<Rightarrow> bool option"
  yarnpkg_version :: "string option"
  npm_version :: "string option"
  stream_error :: "string \<Rightarrow> string option"
  read_archive :: "string \<Rightarrow> string + string"
  dns_lookup :: "string \<Rightarrow> string option"
  spawn_child :: "string \<Rightarrow> string list \<Rightarrow> listing option \<Rightarrow> int option \<times> listing option"
  installed_engines :: "string \<Rightarrow> string option option"
  init_script :: "string \<Rightarrow> string \<Rightarrow> listing option \<Rightarrow> unit step \<times> listing option"
  read_file :: "string \<Rightarrow> string option"

section \<open>Package reference resolver\<close>

text \<open>A string is truthy when it is not empty; \<^verbatim>\<open>null\<close> and \<^verbatim>\<open>undefined\<close> are falsy.\<close>

definition truthy :: "string option \<Rightarrow> bool" where
  "truthy x = (case x of None \<Rightarrow> False | Some s \<Rightarrow> s \<noteq> [])"

definition getInstallPackage :: "env \<Rightarrow> string option \<Rightarrow> string" where
  "getInstallPackage e version =
     (let packageToInstall = ''react-scripts'';
          validSemver = semver_valid e version
      in if truthy validSemver then packageToInstall @ ''@'' @ the validSemver
         else if truthy version then the version
         else packageToInstall)"

text \<open>
  \<^verbatim>\<open>installPackage.match(/^.+\/(.+?)(?:-\d+.+)?\.tgz$/)\<close>, group 1. The pieces, in the
  order the matcher tries them:
  \<^item> \<^verbatim>\<open>^.+\/\<close> is greedy: the longest run of characters other than line terminators,
    from the start, is taken first and given back one character at a time until a
    \<^verbatim>\<open>/\<close> follows and the rest matches (\<open>tgzDir\<close>);
  \<^item> \<^verbatim>\<open>(.+?)\<close> is lazy: one character, then one more at a time, until the rest matches
    (\<open>tgzStem\<close>);
  \<^item> \<^verbatim>\<open>(?:-\d+.+)?\.tgz$\<close> must reach the end of the text: either a dash, a digit, at
    least one more character and \<^verbatim>\<open>.tgz\<close>, or \<^verbatim>\<open>.tgz\<close> alone (\<open>tgzTail\<close>).
\<close>

definition isDigit :: "char \<Rightarrow> bool" where
  "isDigit c = (c \<in> set ''0123456789'')"

definition notLineTerminator :: "char \<Rightarrow> bool" where
  "notLineTerminator c = (\<not> lineTerminator c)"

definition tgzVersionSuffix :: "string \<Rightarrow> bool" where
  "tgzVersionSuffix r =
     (case r of
        c0 # c1 # y \<Rightarrow>
          c0 = CHR ''-'' \<and> isDigit c1 \<and> 4 < length y \<and> drop (length y - 4) y = ''.tgz''
          \<and> list_all notLineTerminator (take (length y - 4) y)
      | _ \<Rightarrow> False)"

definition tgzTail :: "string \<Rightarrow> bool" where
  "tgzTail r = (tgzVersionSuffix r \<or> r = ''.tgz'')"

fun tgzStem :: "string \<Rightarrow> string \<Rightarrow> string option" where
  "tgzStem acc [] = None"
| "tgzStem acc (c # cs) =
     (if lineTerminator c then None
      else if tgzTail cs then Some (acc @ [c])
      else tgzStem (acc @ [c]) cs)"

fun tgzDir :: "string \<Rightarrow> nat \<Rightarrow> string option" where
  "tgzDir s 0 = None"
| "tgzDir s (Suc k) =
     (case (if charAtIndex s (int (Suc k)) = Some CHR ''/'' then tgzStem [] (drop (Suc (Suc k)) s)
            else None) of
        Some stem \<Rightarrow> Some stem
      | None \<Rightarrow> tgzDir s k)"

definition matchTgz :: "string \<Rightarrow> string option" where
  "matchTgz s = tgzDir s (length (takeWhile notLineTerminator s))"

text \<open>
  \<^verbatim>\<open>installPackage.match(/([^\/]+)\.git(#.*)?$/)\<close>, group 1. The expression is not
  anchored on the left, so the matcher tries each start position from the left
  (\<open>gitSearch\<close>); at a start position \<^verbatim>\<open>[^\/]+\<close> takes the longest run without \<^verbatim>\<open>/\<close> and
  gives back one character at a time (\<open>gitBacktrack\<close>) until \<^verbatim>\<open>.git\<close> follows and the
  rest is empty or is \<^verbatim>\<open>#\<close> and characters other than line terminators up to the end
  (\<open>gitTail\<close>).
\<close>

definition gitTail :: "string \<Rightarrow> bool" where
  "gitTail r = (case r of [] \<Rightarrow> True | c # cs \<Rightarrow> c = CHR ''#'' \<and> list_all notLineTerminator cs)"

fun gitBacktrack :: "string \<Rightarrow> nat \<Rightarrow> string option" where
  "gitBacktrack s 0 = None"
| "gitBacktrack s (Suc k) =
     (if take 4 (drop (Suc k) s) = ''.git'' \<and> gitTail (drop (Suc k + 4) s)
      then Some (take (Suc k) s)
      else gitBacktrack s k)"

text \<open>
  A position \<open>j\<close> at which \<^verbatim>\<open>\.git(#.*)?$\<close> matches: what \<open>gitBacktrack\<close> tests.
\<close>

definition gitHit :: "string \<Rightarrow> nat \<Rightarrow> bool" where
  "gitHit s j = (take 4 (drop j s) = ''.git'' \<and> gitTail (drop (j + 4) s))"

definition notSlash :: "char \<Rightarrow> bool" where
  "notSlash c = (c \<noteq> CHR ''/'')"

fun gitSearch :: "string \<Rightarrow> string option" where
  "gitSearch [] = None"
| "gitSearch (c # cs) =
     (case gitBacktrack (c # cs) (length (takeWhile notSlash (c # cs))) of
        Some g \<Rightarrow> Some g
      | None \<Rightarrow> gitSearch cs)"

definition matchGit :: "string \<Rightarrow> string option" where
  "matchGit s = gitSearch s"

text \<open>
  \<^verbatim>\<open>getPackageName\<close>. The archive branch has three outcomes. The program registers no
  listener for the \<^verbatim>\<open>error\<close> event of the stream it pipes into the extraction, so when the
  stream emits one (\<open>stream_error\<close>) the process dies there: nothing is logged, no promise
  is rejected and no \<^verbatim>\<open>.catch\<close> runs. Otherwise the extraction and the read of the declared
  name are the parameter \<open>read_archive\<close>: \<open>Inr\<close> the declared name, \<open>Inl\<close> the message
  of the error that reaches the \<^verbatim>\<open>.catch\<close>. There \<^verbatim>\<open>match(...)[1]\<close> on \<^verbatim>\<open>null\<close> throws a
  TypeError inside the handler, which rejects the promise \<^verbatim>\<open>getPackageName\<close> returns. In
  the git branch the same expression is evaluated before any promise exists, so the
  TypeError leaves \<^verbatim>\<open>getPackageName\<close> as an exception.
\<close>

definition typeError :: string where
  "typeError = ''TypeError: Cannot read property 1 of null''"

definition getPackageName :: "env \<Rightarrow> string \<Rightarrow> string io" where
  "getPackageName e installPackage w =
     (if indexOf installPackage ''.tgz'' > - 1 then
        (case stream_error e installPackage of
           Some err \<Rightarrow> (Uncaught err, w)
         | None \<Rightarrow>
             (case read_archive e installPackage of
                Inr packageName \<Rightarrow> (Resolve packageName, w)
              | Inl message \<Rightarrow>
                  (let w1 = console (''Could not extract the package name from the archive: '' @ message) w
                   in case matchTgz installPackage of
                        None \<Rightarrow> (Reject (UnexpectedError typeError), w1)
                      | Some assumedProjectName \<Rightarrow>
                          (Resolve assumedProjectName,
                           console (''Based on the filename, assuming it is '' @ assumedProjectName) w1))))
      else if indexOf installPackage ''git+'' = 0 then
        (case matchGit installPackage of
           None \<Rightarrow> (Uncaught typeError, w)
         | Some packageName \<Rightarrow> (Resolve packageName, w))
      else if indexOf installPackage ''@'' > 0 then
        (Resolve (take 1 installPackage @ takeWhile (\<lambda>c. c \<noteq> CHR ''@'') (drop 1 installPackage)), w)
      else (Resolve installPackage, w))"

section \<open>Connectivity probe and dependency installer\<close>

definition checkIfOnline :: "env \<Rightarrow> bool \<Rightarrow> bool io" where
  "checkIfOnline e useYarn w =
     (if \<not> useYarn then (Resolve True, w)
      else (Resolve (dns_lookup e ''registry.yarnpkg.com'' = None),
            emit (DnsLookup ''registry.yarnpkg.com'') w))"

fun joinWith :: "string \<Rightarrow> string list \<Rightarrow> string" where
  "joinWith sep [] = []"
| "joinWith sep [x] = x"
| "joinWith sep (x # y # ys) = x @ sep @ joinWith sep (y # ys)"

text \<open>
  \<^verbatim>\<open>install\<close>: the child process is the parameter \<open>spawn_child\<close>, which gives the exit
  code (\<open>None\<close> when a signal ended the child) and what the package manager left in the
  target directory.
\<close>

definition install :: "env \<Rightarrow> bool \<Rightarrow> string list \<Rightarrow> bool \<Rightarrow> bool \<Rightarrow> unit io" where
  "install e useYarn deps verbose isOnline w =
     (let command = (if useYarn then ''yarnpkg'' else ''npm'');
          args0 = (if useYarn
                   then [''add'', ''--exact''] @ (if \<not> isOnline then [''--offline''] else []) @ deps
                   else [''install'', ''--save'', ''--save-exact''] @ deps);
          w1 = (if useYarn \<and> \<not> isOnline
                then console [] (console ''Falling back to the local Yarn cache.''
                       (console ''You appear to be offline.'' w))
                else w);
          args = (if verbose then args0 @ [''--verbose''] else args0);
          child = spawn_child e command args (dir w1);
          w2 = emit (Spawn command args) (w1\<lparr>dir := snd child\<rparr>)
      in if fst child \<noteq> Some 0
         then (Reject (CommandFailed (command @ '' '' @ joinWith '' '' args)), w2)
         else (Resolve (), w2))"

section \<open>Version compatibility gate\<close>

text \<open>
  \<^verbatim>\<open>checkNodeVersion\<close> runs inside a promise callback. \<open>installed_engines\<close> is the read of
  the installed package's manifest: \<open>None\<close> when \<^verbatim>\<open>require\<close> throws, otherwise its
  \<^verbatim>\<open>engines.node\<close>.
\<close>

definition checkNodeVersion :: "env \<Rightarrow> string \<Rightarrow> unit io" where
  "checkNodeVersion e packageName w =
     (case installed_engines e packageName of
        None \<Rightarrow> (Reject (UnexpectedError ''Cannot find module''), w)
      | Some engines_node \<Rightarrow>
          if \<not> truthy engines_node then (Resolve (), w)
          else if \<not> semver_satisfies e (process_version e) (the engines_node)
          then (ProcessExit 1,
                console (''You are running Node '' @ process_version e
                         @ ''. Create Divi Extension requires Node '' @ the engines_node
                         @ '' or higher. Please update your version of Node.'') w)
          else (Resolve (), w))"

section \<open>Manifest rewriter\<close>

definition makeCaretRange :: "env \<Rightarrow> (string \<times> string) list \<Rightarrow> string \<Rightarrow> (string \<times> string) list io" where
  "makeCaretRange e deps name w =
     (case map_of deps name of
        None \<Rightarrow> (ProcessExit 1, console (''Missing '' @ name @ '' dependency in package.json'') w)
      | Some version \<Rightarrow>
          (let patchedVersion = ''^'' @ version
           in if \<not> semver_validRange e patchedVersion
              then (Resolve (AList.update name version deps),
                    console (''Unable to patch '' @ name @ '' dependency version because version ''
                             @ version @ '' will become invalid '' @ patchedVersion) w)
              else (Resolve (AList.update name patchedVersion deps), w)))"

text \<open>
  \<^verbatim>\<open>obj[k] = v\<close> where \<open>v\<close> may be \<^verbatim>\<open>undefined\<close>: a property holding \<^verbatim>\<open>undefined\<close> reads
  like a missing one and \<^verbatim>\<open>JSON.stringify\<close> leaves it out, so it is removed.
\<close>

definition assign :: "string \<Rightarrow> string option \<Rightarrow> (string \<times> string) list \<Rightarrow> (string \<times> string) list" where
  "assign k v obj = (case v of None \<Rightarrow> AList.delete k obj | Some x \<Rightarrow> AList.update k x obj)"

text \<open>
  An object read from JSON is represented by its own string-valued properties. A read
  \<^verbatim>\<open>obj[k]\<close> with a computed key goes through the prototype chain: where the object has
  no own property \<open>k\<close>, a name that \<^verbatim>\<open>Object.prototype\<close> defines reads as the inherited
  function or object, which is not \<^verbatim>\<open>undefined\<close>. The keys \<^verbatim>\<open>react\<close> and \<^verbatim>\<open>react-dom\<close>, the
  only ones \<open>makeCaretRange\<close> and \<open>assign\<close> are called with, are not among these names,
  so there the own-property read is the read.
\<close>

definition objectPrototypeKeys :: "string list" where
  "objectPrototypeKeys =
     [''constructor'', ''__defineGetter__'', ''__defineSetter__'', ''hasOwnProperty'',
      ''__lookupGetter__'', ''__lookupSetter__'', ''isPrototypeOf'', ''propertyIsEnumerable'',
      ''toString'', ''valueOf'', ''__proto__'', ''toLocaleString'']"

datatype property = Text string | Inherited

definition readProperty :: "(string \<times> string) list \<Rightarrow> string \<Rightarrow> property option" where
  "readProperty obj k =
     (case map_of obj k of
        Some v \<Rightarrow> Some (Text v)
      | None \<Rightarrow> if List.member objectPrototypeKeys k then Some Inherited else None)"

text \<open>
  \<^verbatim>\<open>obj[k] = v\<close> for a value that was read: a string becomes an own property, except
  that the setter of \<^verbatim>\<open>__proto__\<close> ignores a string when the object has no own property of
  that name; an inherited function or object becomes an own property that is not a
  string, which \<^verbatim>\<open>JSON.stringify\<close> leaves out or writes as an empty object.
\<close>

definition setProperty :: "string \<Rightarrow> property \<Rightarrow> (string \<times> string) list \<Rightarrow> (string \<times> string) list" where
  "setProperty k v obj =
     (case v of
        Text x \<Rightarrow> if k = ''__proto__'' \<and> map_of obj k = None then obj else AList.update k x obj
      | Inherited \<Rightarrow> AList.delete k obj)"

definition requireManifest :: "world \<Rightarrow> manifest option" where
  "requireManifest w =
     (case dir w of
        None \<Rightarrow> None
      | Some entries \<Rightarrow>
          (case map_of entries ''package.json'' of Some (Manifest m) \<Rightarrow> Some m | _ \<Rightarrow> None))"

definition writeManifest :: "manifest \<Rightarrow> unit io" where
  "writeManifest m w =
     (case dir w of
        None \<Rightarrow> (Reject (UnexpectedError ''ENOENT''), w)
      | Some entries \<Rightarrow>
          (Resolve (),
           emit (WriteFile ''package.json'')
             (w\<lparr>dir := Some (AList.update ''package.json'' (Manifest m) entries)\<rparr>)))"

definition fixDependencies :: "env \<Rightarrow> string \<Rightarrow> unit io" where
  "fixDependencies e packageName w =
     (case requireManifest w of
        None \<Rightarrow> (Reject (UnexpectedError ''Cannot find module''), w)
      | Some packageJson \<Rightarrow>
          (case dependencies packageJson of
             None \<Rightarrow> (ProcessExit 1, console ''Missing dependencies in package.json'' w)
           | Some deps \<Rightarrow>
               (case readProperty deps packageName of
                  None \<Rightarrow>
                    (ProcessExit 1, console (''Unable to find '' @ packageName @ '' in package.json'') w)
                | Some packageVersion \<Rightarrow>
                    (let dev0 = (case devDependencies packageJson of None \<Rightarrow> [] | Some d \<Rightarrow> d);
                         dev1 = setProperty packageName packageVersion dev0;
                         deps1 = AList.delete packageName deps;
                         dev2 = assign ''react'' (map_of deps1 ''react'') dev1;
                         dev3 = assign ''react-dom'' (map_of deps1 ''react-dom'') dev2;
                         deps2 = AList.delete ''react'' deps1;
                         deps3 = AList.delete ''react-dom'' deps2
                     in thenIO (makeCaretRange e dev3 ''react'') (\<lambda>dev4.
                        thenIO (makeCaretRange e dev4 ''react-dom'') (\<lambda>dev5.
                        writeManifest (packageJson\<lparr>dependencies := Some deps3,
                                                   devDependencies := Some dev5\<rparr>))) w))))"

section \<open>Template token substitution: the scaffold files\<close>

text \<open>\<^verbatim>\<open>s.replace(pattern, replacement)\<close> with a string pattern: the first occurrence only.\<close>

fun replaceFirst :: "string \<Rightarrow> string \<Rightarrow> string \<Rightarrow> string" where
  "replaceFirst pat rep [] = (if pat = [] then rep else [])"
| "replaceFirst pat rep (c # cs) =
     (if prefix pat (c # cs) then rep @ drop (length pat) (c # cs)
      else c # replaceFirst pat rep cs)"

definition scaffoldFiles :: "string list" where
  "scaffoldFiles = [''template.php'', ''module/loader.php'', ''module/__Prefix_Custom.php'']"

text \<open>
  The loop over the scaffold files. A file that cannot be read throws inside the promise
  callback. The text of the files is outside the model: a write is recorded by its path,
  and a rename, which completes after the function has returned, by its two paths.
\<close>

fun finalizeFiles :: "env \<Rightarrow> string \<Rightarrow> templateContext \<Rightarrow> string list \<Rightarrow> unit io" where
  "finalizeFiles e root ctx [] w = (Resolve (), w)"
| "finalizeFiles e root ctx (name # names) w =
     (let is_main_file = (''template.php'' = name);
          is_module = (''module/__Prefix_Custom.php'' = name);
          file = path_join e root name
      in case read_file e file of
           None \<Rightarrow> (Reject (UnexpectedError ''ENOENT''), w)
         | Some data \<Rightarrow>
             (let w1 = emit (WriteFile file) w;
                  w2 = (if is_main_file
                        then emit (Move file (replaceFirst ''template''
                                     (path_basename e (path_dirname e file)) file)) w1
                        else if is_module
                        then emit (Move file (replaceFirst ''__Prefix'' (prefix_tc ctx) file)) w1
                        else w1)
              in finalizeFiles e root ctx names w2))"

definition finalize_extension_files :: "env \<Rightarrow> string \<Rightarrow> string \<Rightarrow> unit io" where
  "finalize_extension_files e root appName w =
     finalizeFiles e root (derivePrefix appName) scaffoldFiles
       (console (''prefix is: '' @ truncatedPrefix appName) w)"

section \<open>Transactional rollback controller\<close>

definition knownGeneratedFiles :: "string list" where
  "knownGeneratedFiles =
     [''package.json'', ''npm-debug.log'', ''yarn-error.log'', ''yarn-debug.log'', ''node_modules'']"

text \<open>
  \<^verbatim>\<open>fileToMatch.match(/.log/g)\<close> is truthy when some character other than a line
  terminator is followed by \<^verbatim>\<open>log\<close>.
\<close>

fun matchesDotLog :: "string \<Rightarrow> bool" where
  "matchesDotLog [] = False"
| "matchesDotLog (c # cs) = ((notLineTerminator c \<and> take 3 cs = ''log'') \<or> matchesDotLog cs)"

definition isGeneratedMatch :: "string \<Rightarrow> string \<Rightarrow> bool" where
  "isGeneratedMatch file fileToMatch =
     ((matchesDotLog fileToMatch \<and> indexOf file fileToMatch = 0) \<or> file = fileToMatch)"

text \<open>\<^verbatim>\<open>fs.removeSync\<close> of an entry of the target directory; a missing entry is no error.\<close>

definition removeSync :: "env \<Rightarrow> string \<Rightarrow> string \<Rightarrow> world \<Rightarrow> world" where
  "removeSync e root file w =
     emit (Remove (path_join e root file))
       (w\<lparr>dir := map_option (filter (\<lambda>entry. fst entry \<noteq> file)) (dir w)\<rparr>)"

text \<open>
  The two nested \<^verbatim>\<open>forEach\<close> loops: \<open>deleteOne\<close> runs the inner loop, over
  \<open>knownGeneratedFiles\<close>, for one entry; \<open>deleteGenerated\<close> runs the outer one, over
  the entries listed before the deletion began.
\<close>

definition deleteOne :: "env \<Rightarrow> string \<Rightarrow> string \<Rightarrow> world \<Rightarrow> world" where
  "deleteOne e root file w =
     fold (\<lambda>fileToMatch w'.
             if isGeneratedMatch file fileToMatch
             then removeSync e root file (console (''Deleting generated file... '' @ file) w')
             else w') knownGeneratedFiles w"

definition deleteGenerated :: "env \<Rightarrow> string \<Rightarrow> string list \<Rightarrow> world \<Rightarrow> world" where
  "deleteGenerated e root currentFiles w = fold (deleteOne e root) currentFiles w"

text \<open>
  The \<^verbatim>\<open>.catch\<close> handler of \<^verbatim>\<open>run\<close>: \<open>reportFailure\<close> is its first part, which prints
  the reason. \<^verbatim>\<open>readdirSync\<close> throws when the target directory is gone; inside the handler
  nothing catches that.
\<close>

definition reportFailure :: "reason \<Rightarrow> world \<Rightarrow> world" where
  "reportFailure reason w =
     (let w1 = console ''Aborting installation.'' (console [] w);
          w2 = (case reason of
                  CommandFailed command \<Rightarrow>
                    if command \<noteq> [] then console (''  '' @ command @ '' has failed.'') w1
                    else console command (console ''Unexpected error. Please report it as a bug:'' w1)
                | UnexpectedError err \<Rightarrow>
                    console err (console ''Unexpected error. Please report it as a bug:'' w1))
      in console [] w2)"

definition rollback :: "env \<Rightarrow> string \<Rightarrow> string \<Rightarrow> reason \<Rightarrow> unit io" where
  "rollback e root appName reason w =
     (let w3 = reportFailure reason w
      in case dir w3 of
           None \<Rightarrow> (Uncaught ''ENOENT'', w3)
         | Some currentFiles \<Rightarrow>
             (let w4 = deleteGenerated e root (map fst currentFiles) w3
              in case dir w4 of
                   None \<Rightarrow> (Uncaught ''ENOENT'', w4)
                 | Some remainingFiles \<Rightarrow>
                     (let w5 = (if remainingFiles = []
                                then emit (Remove root)
                                       ((emit (Chdir (path_dirname e root))
                                          (console (''Deleting '' @ appName @ '' / from ''
                                                    @ path_dirname e root) w4))\<lparr>dir := None\<rparr>)
                                else w4)
                      in (ProcessExit 1, console ''Done.'' w5))))"

section \<open>The run\<close>

definition runInit :: "env \<Rightarrow> string \<Rightarrow> string \<Rightarrow> string \<Rightarrow> unit io" where
  "runInit e packageName root appName w =
     (let r = init_script e packageName root (dir w)
      in (fst r, emit (RunInit packageName) (w\<lparr>dir := snd r\<rparr>)))"

text \<open>
  \<^verbatim>\<open>run\<close> is a promise chain with one \<^verbatim>\<open>.catch\<close> at its end. \<open>installStage\<close> is the chain
  up to the installation (the first two \<^verbatim>\<open>.then\<close> callbacks), \<open>setupStage\<close> is the third
  callback, \<open>runChain\<close> is the whole chain before the \<^verbatim>\<open>.catch\<close>, and the handler is
  \<open>rollback\<close>.
\<close>

definition installStage :: "env \<Rightarrow> string option \<Rightarrow> bool \<Rightarrow> bool \<Rightarrow> string io" where
  "installStage e version verbose useYarn =
     (let packageToInstall = getInstallPackage e version;
          allDependencies = [''react'', ''react-dom'', packageToInstall]
      in thenIO
           (thenIO (getPackageName e packageToInstall) (\<lambda>packageName.
              thenIO (checkIfOnline e useYarn) (\<lambda>isOnline. resolve (isOnline, packageName))))
           (\<lambda>info w1.
              let isOnline = fst info;
                  packageName = snd info
              in thenIO (install e useYarn allDependencies verbose isOnline)
                   (\<lambda>u. resolve packageName)
                   (console [] (console (''Installing react, react-dom, and '' @ packageName @ ''...'') w1))))"

definition setupStage :: "env \<Rightarrow> string \<Rightarrow> string \<Rightarrow> string option \<Rightarrow> string \<Rightarrow> unit io" where
  "setupStage e root appName version packageName =
     thenIO (checkNodeVersion e packageName) (\<lambda>u1.
     thenIO (fixDependencies e packageName) (\<lambda>u2.
     thenIO (runInit e packageName root appName) (\<lambda>u3.
     thenIO (finalize_extension_files e root appName) (\<lambda>u4 w2.
       (Resolve (),
        if version = Some ''react-scripts@0.9.x''
        then console ''Note: the project was boostrapped with an old unsupported version of tools.'' w2
        else w2)))))"

definition runChain :: "env \<Rightarrow> string \<Rightarrow> string \<Rightarrow> string option \<Rightarrow> bool \<Rightarrow> bool \<Rightarrow> unit io" where
  "runChain e root appName version verbose useYarn =
     thenIO (installStage e version verbose useYarn) (setupStage e root appName version)"

definition installingMessage :: string where
  "installingMessage = ''Installing packages. This might take a couple minutes.''"

definition run :: "env \<Rightarrow> string \<Rightarrow> string \<Rightarrow> string option \<Rightarrow> bool \<Rightarrow> string \<Rightarrow> string \<Rightarrow> bool \<Rightarrow> unit io" where
  "run e root appName version verbose originalDirectory template useYarn w =
     catchIO (runChain e root appName version verbose useYarn) (rollback e root appName)
       (console installingMessage w)"

section \<open>Creating the project\<close>

definition printValidationResults :: "string list option \<Rightarrow> world \<Rightarrow> world" where
  "printValidationResults results w =
     (case results of None \<Rightarrow> w | Some rs \<Rightarrow> fold (\<lambda>error. console (''  *  '' @ error)) rs w)"

definition checkAppName :: "env \<Rightarrow> string \<Rightarrow> unit io" where
  "checkAppName e appName w =
     (let validationResult = validateProjectName e appName
      in if \<not> validForNewPackages validationResult
         then (ProcessExit 1,
               printValidationResults (warnings validationResult)
                 (printValidationResults (errors validationResult)
                   (console (''Could not create a project called '' @ appName
                             @ '' because of npm naming restrictions:'') w)))
         else if List.member [''react'', ''react-dom'', ''react-scripts''] appName
         then (ProcessExit 1,
               console (''We cannot create a project called '' @ appName
                        @ '' because a dependency with the same name exists.'') w)
         else (Resolve (), w))"

definition validFiles :: "string list" where
  "validFiles =
     [''.DS_Store'', ''Thumbs.db'', ''.git'', ''.gitignore'', ''.idea'', ''README.md'',
      ''LICENSE'', ''web.iml'', ''.hg'', ''.hgignore'', ''.hgcheck'']"

definition isSafeToCreateProjectIn :: "listing \<Rightarrow> bool" where
  "isSafeToCreateProjectIn entries = list_all (\<lambda>file. List.member validFiles file) (map fst entries)"

definition ensureDirSync :: "string \<Rightarrow> world \<Rightarrow> world" where
  "ensureDirSync name w =
     emit (EnsureDir name) (w\<lparr>dir := Some (case dir w of None \<Rightarrow> [] | Some entries \<Rightarrow> entries)\<rparr>)"

definition shouldUseYarn :: "env \<Rightarrow> bool" where
  "shouldUseYarn e = (yarnpkg_version e \<noteq> None)"

record npmInfo =
  hasMinNpm :: bool
  npmVersion :: "string option"

definition checkNpmVersion :: "env \<Rightarrow> npmInfo" where
  "checkNpmVersion e =
     (case npm_version e of
        None \<Rightarrow> \<lparr>hasMinNpm = False, npmVersion = None\<rparr>
      | Some v \<Rightarrow>
          \<lparr>hasMinNpm = (case semver_gte e v ''3.0.0'' of None \<Rightarrow> False | Some b \<Rightarrow> b),
           npmVersion = Some v\<rparr>)"

definition oldToolsVersion :: string where
  "oldToolsVersion = ''react-scripts@0.9.x''"

definition createApp :: "env \<Rightarrow> string \<Rightarrow> bool \<Rightarrow> string option \<Rightarrow> unit io" where
  "createApp e name verbose version w =
     (let root = path_resolve e name;
          appName = path_basename e root
      in thenIO (checkAppName e appName) (\<lambda>u w0.
           let w1 = ensureDirSync name w0
           in case dir w1 of
                None \<Rightarrow> (Uncaught ''ENOENT'', w1)
              | Some entries \<Rightarrow>
                  if \<not> isSafeToCreateProjectIn entries
                  then (ProcessExit 1,
                        console ''Try using a new directory name.''
                          (console (''The directory '' @ name @ '' contains files that could conflict.'') w1))
                  else
                    (let w2 = console [] (console (''Creating a new Divi extension in '' @ root @ ''.'') w1);
                         packageJson = \<lparr>pkg_name = appName, pkg_version = ''0.1.0'', pkg_private = True,
                                        dependencies = None, devDependencies = None\<rparr>;
                         w3 = emit (WriteFile ''package.json'')
                                (w2\<lparr>dir := Some (AList.update ''package.json'' (Manifest packageJson) entries)\<rparr>);
                         originalDirectory = process_cwd e;
                         w4 = emit (Chdir root) w3;
                         nodeOk = semver_satisfies e (process_version e) ''>=6.0.0'';
                         w5 = (if \<not> nodeOk
                               then console (''You are using Node '' @ process_version e
                                      @ '' so the project will be boostrapped with an old unsupported version of tools.'') w4
                               else w4);
                         version1 = (if \<not> nodeOk then Some oldToolsVersion else version);
                         useYarn = shouldUseYarn e;
                         npm = checkNpmVersion e;
                         w6 = (if \<not> useYarn \<and> \<not> hasMinNpm npm \<and> truthy (npmVersion npm)
                               then console (''You are using npm '' @ the (npmVersion npm)
                                      @ '' so the project will be boostrapped with an old unsupported version of tools.'') w5
                               else w5);
                         version2 = (if \<not> useYarn \<and> \<not> hasMinNpm npm then Some oldToolsVersion else version1)
                     in run e root appName version2 verbose originalDirectory
                          (path_join e (script_dirname e) ''template'') useYarn w6)) w)"

section \<open>The specification's wording, as definitions\<close>

text \<open>
  The prefix as the specification words it: strip a leading case-insensitive
  \<^verbatim>\<open>divi\<close>, trim one leading separator, take at most the next 4 characters, lower-case
  them, trim one trailing separator.
\<close>

definition stripLeadingDivi :: "string \<Rightarrow> string" where
  "stripLeadingDivi name = (if toLowerCase (take 4 name) = ''divi'' then drop 4 name else name)"

definition separatorChar :: "char \<Rightarrow> bool" where
  "separatorChar c = (c = CHR ''-'' \<or> c = CHR ''_'')"

definition trimLeadingSeparator :: "string \<Rightarrow> string" where
  "trimLeadingSeparator s = (case s of [] \<Rightarrow> [] | c # cs \<Rightarrow> if separatorChar c then cs else s)"

definition trimTrailingSeparator :: "string \<Rightarrow> string" where
  "trimTrailingSeparator s = (if s \<noteq> [] \<and> separatorChar (last s) then butlast s else s)"

definition statedPrefix :: "string \<Rightarrow> string" where
  "statedPrefix name =
     trimTrailingSeparator (toLowerCase (take 4 (trimLeadingSeparator (stripLeadingDivi name))))"

text \<open>
  The same with the truncation the program performs: the characters kept end at index 4
  of the stripped name, so a trimmed leading separator counts among the four.
\<close>

definition indexedPrefix :: "string \<Rightarrow> string" where
  "indexedPrefix name =
     trimTrailingSeparator
       (toLowerCase (take (4 - (length (stripLeadingDivi name)
                                - length (trimLeadingSeparator (stripLeadingDivi name))))
                          (trimLeadingSeparator (stripLeadingDivi name))))"

text \<open>The entries the rollback may delete, as the specification lists them.\<close>

definition allowListed :: "string \<Rightarrow> bool" where
  "allowListed file =
     (file = ''package.json'' \<or> file = ''node_modules'' \<or> prefix ''npm-debug.log'' file
      \<or> prefix ''yarn-error.log'' file \<or> prefix ''yarn-debug.log'' file)"

text \<open>
  A manifest that lacks a required dependency entry: it has no \<^verbatim>\<open>dependencies\<close>, or
  \<^verbatim>\<open>dependencies[packageName]\<close>, \<^verbatim>\<open>dependencies['react']\<close> or
  \<^verbatim>\<open>dependencies['react-dom']\<close> reads \<^verbatim>\<open>undefined\<close>.
\<close>

definition lacksRequired :: "manifest \<Rightarrow> string \<Rightarrow> bool" where
  "lacksRequired m packageName =
     (case dependencies m of
        None \<Rightarrow> True
      | Some deps \<Rightarrow>
          readProperty deps packageName = None \<or> map_of deps ''react'' = None
          \<or> map_of deps ''react-dom'' = None)"

text \<open>The messages the manifest rewriter prints before it exits.\<close>

definition missingDependencyMessages :: "string \<Rightarrow> string list" where
  "missingDependencyMessages packageName =
     [''Missing dependencies in package.json'',
      ''Unable to find '' @ packageName @ '' in package.json'',
      ''Missing react dependency in package.json'',
      ''Missing react-dom dependency in package.json'']"

fun isRemove :: "effect \<Rightarrow> bool" where
  "isRemove (Remove p) = True"
| "isRemove x = False"

text \<open>The second world has the target directory of the first and no further removal.\<close>

definition sameFiles :: "world \<Rightarrow> world \<Rightarrow> bool" where
  "sameFiles w w' = (dir w' = dir w \<and> filter isRemove (trace w') = filter isRemove (trace w))"

text \<open>The effects that write the manifest or start the package manager.\<close>

fun writesOrInstalls :: "effect \<Rightarrow> bool" where
  "writesOrInstalls (WriteFile p) = True"
| "writesOrInstalls (Spawn c args) = True"
| "writesOrInstalls x = False"

fun isDnsLookup :: "effect \<Rightarrow> bool" where
  "isDnsLookup (DnsLookup h) = True"
| "isDnsLookup x = False"

section \<open>A concrete machine\<close>

text \<open>
  An environment on which the definitions can be run: POSIX paths, a \<^verbatim>\<open>semver\<close> that
  accepts \<^verbatim>\<open>MAJOR.MINOR.PATCH\<close> with an optional pre-release of alphanumeric
  identifiers and returns it as it is, a range parser that accepts a caret followed by
  a digit, npm as the package manager, no archive on the local disk, a download whose
  extraction fails, and an installed package without an \<^verbatim>\<open>engines\<close> constraint.
\<close>

fun splitOn :: "char \<Rightarrow> string \<Rightarrow> string list" where
  "splitOn sep [] = [] # []"
| "splitOn sep (c # cs) =
     (case splitOn sep cs of
        [] \<Rightarrow> [c] # []
      | p # ps \<Rightarrow> if c = sep then [] # p # ps else (c # p) # ps)"

definition isAlnumDash :: "char \<Rightarrow> bool" where
  "isAlnumDash c =
     (c \<in> set ''0123456789abcdefghijklmnopqrstuvwxyzABCDEFGHIJKLMNOPQRSTUVWXYZ-'')"

definition demoValid :: "string option \<Rightarrow> string option" where
  "demoValid version =
     (case version of
        None \<Rightarrow> None
      | Some v \<Rightarrow>
          (let core = takeWhile (\<lambda>c. c \<noteq> CHR ''-'') v;
               pre = drop (Suc (length core)) v;
               numbers = splitOn CHR ''.'' core;
               identifiers = splitOn CHR ''.'' pre
           in if length numbers = 3 \<and> list_all (\<lambda>n. n \<noteq> [] \<and> list_all isDigit n) numbers
                 \<and> (length core = length v
                      \<or> list_all (\<lambda>i. i \<noteq> [] \<and> list_all isAlnumDash i) identifiers)
              then Some v else None))"

definition demoValidRange :: "string \<Rightarrow> bool" where
  "demoValidRange r = (case r of c # d # rest \<Rightarrow> c = CHR ''^'' \<and> isDigit d | _ \<Rightarrow> False)"

definition demoBasename :: "string \<Rightarrow> string" where
  "demoBasename p = rev (takeWhile notSlash (rev p))"

definition demoDirname :: "string \<Rightarrow> string" where
  "demoDirname p = rev (drop 1 (dropWhile notSlash (rev p)))"

definition installedManifest :: manifest where
  "installedManifest =
     \<lparr>pkg_name = ''divi-sample'', pkg_version = ''0.1.0'', pkg_private = True,
      dependencies = Some [(''react'', ''16.2.0''), (''react-dom'', ''16.2.0''),
                           (''react-scripts'', ''1.1.0'')],
      devDependencies = None\<rparr>"

definition demoEnv :: env where
  "demoEnv =
     \<lparr>path_resolve = (\<lambda>name. ''/home/user/'' @ name),
      path_basename = demoBasename,
      path_dirname = demoDirname,
      path_join = (\<lambda>a b. a @ ''/'' @ b),
      validateProjectName = (\<lambda>name. \<lparr>validForNewPackages = True, errors = None, warnings = None\<rparr>),
      process_version = ''v8.9.4'',
      process_cwd = ''/home/user'',
      script_dirname = ''/usr/lib/node_modules/create-divi-extension'',
      semver_valid = demoValid,
      semver_validRange = demoValidRange,
      semver_satisfies = (\<lambda>version range. True),
      semver_gte = (\<lambda>a b. Some True),
      yarnpkg_version = None,
      npm_version = Some ''5.6.0'',
      stream_error = (\<lambda>installPackage.
        if take 4 installPackage = ''http'' then None
        else Some ''ENOENT: no such file or directory''),
      read_archive = (\<lambda>installPackage. Inl ''unexpected end of file''),
      dns_lookup = (\<lambda>host. None),
      spawn_child = (\<lambda>command args d.
        (Some 0, Some (AList.update ''node_modules'' Other
                        (AList.update ''package.json'' (Manifest installedManifest)
                          (case d of None \<Rightarrow> [] | Some entries \<Rightarrow> entries))))),
      installed_engines = (\<lambda>packageName. Some None),
      init_script = (\<lambda>packageName root d. (Resolve (), d)),
      read_file = (\<lambda>file. Some [])\<rparr>"

text \<open>The same machine with a package manager that fails and leaves a debug log.\<close>

definition failingInstallEnv :: env where
  "failingInstallEnv =
     demoEnv\<lparr>spawn_child := (\<lambda>command args d.
        (Some 1, Some (AList.update ''npm-debug.log.1234'' Other
                        (AList.update ''node_modules'' Other
                          (case d of None \<Rightarrow> [] | Some entries \<Rightarrow> entries)))))\<rparr>"

text \<open>The same machine with a package manager that succeeds but records no \<^verbatim>\<open>react\<close>.\<close>

definition incompleteManifest :: manifest where
  "incompleteManifest =
     \<lparr>pkg_name = ''divi-sample'', pkg_version = ''0.1.0'', pkg_private = True,
      dependencies = Some [(''react-dom'', ''16.2.0''), (''react-scripts'', ''1.1.0'')],
      devDependencies = None\<rparr>"

definition missingReactEnv :: env where
  "missingReactEnv =
     demoEnv\<lparr>spawn_child := (\<lambda>command args d.
        (Some 0, Some (AList.update ''node_modules'' Other
                        (AList.update ''package.json'' (Manifest incompleteManifest)
                          (case d of None \<Rightarrow> [] | Some entries \<Rightarrow> entries)))))\<rparr>"

definition emptyWorld :: world where
  "emptyWorld = \<lparr>dir = None, trace = []\<rparr>"

definition occupiedWorld :: world where
  "occupiedWorld = \<lparr>dir = Some [(''.git'', Other), (''index.php'', Other)], trace = []\<rparr>"

text \<open>The target directory as \<^verbatim>\<open>createApp\<close> hands it to \<^verbatim>\<open>run\<close>, here with a repository in it.\<close>

definition preparedWorld :: world where
  "preparedWorld =
     \<lparr>dir = Some [(''.git'', Other),
                  (''package.json'',
                   Manifest \<lparr>pkg_name = ''divi-sample'', pkg_version = ''0.1.0'', pkg_private = True,
                             dependencies = None, devDependencies = None\<rparr>)],
      trace = []\<rparr>"

section \<open>Facts about the string operations\<close>

lemma indexOfFrom_prefix: "prefix t s \<Longrightarrow> indexOfFrom i s t = int i"
  by (cases s) auto

lemma indexOfFrom_lower: "indexOfFrom i s t = - 1 \<or> int i \<le> indexOfFrom i s t"
  by (induction s arbitrary: i) (auto, force)

lemma indexOfFrom_hit:
  assumes eq: "indexOfFrom i s t = int i"
  shows "prefix t s"
proof (cases s)
  case Nil
  with eq show ?thesis by (cases "t = []") auto
next
  case (Cons c cs)
  show ?thesis
  proof (rule ccontr)
    assume np: "\<not> prefix t s"
    from np Cons eq have "indexOfFrom (Suc i) cs t = int i" by simp
    moreover have "indexOfFrom (Suc i) cs t = - 1 \<or> int (Suc i) \<le> indexOfFrom (Suc i) cs t"
      by (rule indexOfFrom_lower)
    ultimately show False by auto
  qed
qed

lemma indexOf_zero_iff: "indexOf s t = 0 \<longleftrightarrow> prefix t s"
  using indexOfFrom_hit [of 0 s t] indexOfFrom_prefix [of t s 0] by (auto simp: indexOf_def)

lemma indexOfFrom_absent: "\<not> sublist t s \<Longrightarrow> indexOfFrom i s t = - 1"
proof (induction s arbitrary: i)
  case Nil
  then show ?case by auto
next
  case (Cons c cs)
  then show ?case by (auto simp: sublist_Cons_right)
qed

lemma indexOfFrom_present: "sublist t s \<Longrightarrow> int i \<le> indexOfFrom i s t"
proof (induction s arbitrary: i)
  case Nil
  then show ?case by auto
next
  case (Cons c cs)
  show ?case
  proof (cases "prefix t (c # cs)")
    case True
    then show ?thesis by simp
  next
    case False
    with Cons.prems have "sublist t cs" by (simp add: sublist_Cons_right)
    then have "int (Suc i) \<le> indexOfFrom (Suc i) cs t" by (rule Cons.IH)
    with False show ?thesis by simp
  qed
qed

lemma indexOf_found_iff: "indexOf s t > - 1 \<longleftrightarrow> sublist t s"
proof (cases "sublist t s")
  case True
  then have "int 0 \<le> indexOfFrom 0 s t" by (rule indexOfFrom_present)
  with True show ?thesis by (simp add: indexOf_def)
next
  case False
  then have "indexOfFrom 0 s t = - 1" by (rule indexOfFrom_absent)
  with False show ?thesis by (simp add: indexOf_def)
qed

section \<open>The prefix derivation\<close>

lemma substring_from_0: "substring s 0 n = take n s"
  by (simp add: substring_def Let_def min_def)

lemma substring_1_4: "substring s (Suc 0) 4 = take 3 (drop 1 s)"
  by (cases s) (auto simp: substring_def Let_def min_def max_def)

lemma charAtIndex_first: "charAtIndex s 0 = (case s of [] \<Rightarrow> None | c # cs \<Rightarrow> Some c)"
  by (cases s) (auto simp: charAtIndex_def)

lemma charAtIndex_last: "charAtIndex s (int (length s) - 1) = (if s = [] then None else Some (last s))"
proof (cases "s = []")
  case True
  then show ?thesis by (simp add: charAtIndex_def)
next
  case False
  then have "nat (int (length s) - 1) = length s - 1" by simp
  with False show ?thesis by (simp add: charAtIndex_def last_conv_nth)
qed

lemma substring_butlast: "substring s 0 (length s - Suc 0) = butlast s"
  by (simp add: substring_from_0 butlast_conv_take)

lemma isSeparator_Some: "isSeparator (Some c) = separatorChar c"
  by (simp add: isSeparator_def separatorChar_def)

lemma isSeparator_None: "isSeparator None = False"
  by (simp add: isSeparator_def)

lemma replaceDivi_inside_line: "list_all notLineTerminator s \<Longrightarrow> replaceDivi False s = s"
  by (induction s) (auto simp: notLineTerminator_def)

lemma strippedName_single_line:
  assumes "list_all notLineTerminator name"
  shows "strippedName name = stripLeadingDivi name"
proof (cases name)
  case Nil
  then show ?thesis by (simp add: strippedName_def stripLeadingDivi_def toLowerCase_def)
next
  case (Cons c cs)
  with assms have c: "notLineTerminator c" and cs: "list_all notLineTerminator cs" by auto
  show ?thesis
  proof (cases "matchesDivi name")
    case True
    have "list_all notLineTerminator (drop 3 cs)"
      using cs by (simp add: list_all_iff) (meson in_set_dropD)
    then have "replaceDivi False (drop 3 cs) = drop 3 cs" by (rule replaceDivi_inside_line)
    with True Cons show ?thesis
      by (simp add: strippedName_def stripLeadingDivi_def matchesDivi_def)
  next
    case False
    from cs have "replaceDivi False cs = cs" by (rule replaceDivi_inside_line)
    with False Cons c show ?thesis
      by (simp add: strippedName_def stripLeadingDivi_def matchesDivi_def notLineTerminator_def)
  qed
qed

lemma truncatedPrefix_indexed:
  "truncatedPrefix name =
     toLowerCase (take (4 - (length (strippedName name) - length (trimLeadingSeparator (strippedName name))))
                       (trimLeadingSeparator (strippedName name)))"
proof (cases "strippedName name")
  case Nil
  then show ?thesis
    by (simp add: truncatedPrefix_def charAtIndex_first isSeparator_None substring_from_0
        trimLeadingSeparator_def toLowerCase_def)
next
  case (Cons c cs)
  then show ?thesis
    by (simp add: truncatedPrefix_def charAtIndex_first isSeparator_Some substring_from_0
        substring_1_4 trimLeadingSeparator_def)
qed

lemma derivePrefix_trim:
  "prefix_lc (derivePrefix name) = trimTrailingSeparator (truncatedPrefix name)"
  by (simp add: derivePrefix_def Let_def charAtIndex_last isSeparator_Some isSeparator_None
      substring_butlast trimTrailingSeparator_def)

lemma derivePrefix_cases:
  "prefix_uc (derivePrefix name) = toUpperCase (prefix_lc (derivePrefix name))"
  "prefix_tc (derivePrefix name) =
     take 1 (toUpperCase (prefix_lc (derivePrefix name))) @ drop 1 (prefix_lc (derivePrefix name))"
  by (simp_all add: derivePrefix_def Let_def)

lemma example_name_context:
  "derivePrefix ''divi-foo-extension'' = \<lparr>prefix_lc = ''foo'', prefix_uc = ''FOO'', prefix_tc = ''Foo''\<rparr>"
  by code_simp

text \<open>
  C3, as stated, fails: after a trimmed leading separator the program keeps the
  characters up to index 4 of the stripped name, which are three, where the claim
  takes the next four. For the name \<^verbatim>\<open>divi-abcdef\<close> the program derives \<^verbatim>\<open>abc\<close> and the
  claim's wording gives \<^verbatim>\<open>abcd\<close>.
\<close>

theorem prefix_counterexample:
  "prefix_lc (derivePrefix ''divi-abcdef'') = ''abc'' \<and> statedPrefix ''divi-abcdef'' = ''abcd''"
  by code_simp

text \<open>
  C3, amended: for every project directory name (a single line of text, as every npm
  package name is), \<^verbatim>\<open>prefix\<close> is obtained by stripping a leading case-insensitive
  \<^verbatim>\<open>divi\<close>, trimming one leading \<^verbatim>\<open>-\<close> or \<^verbatim>\<open>_\<close>, keeping the characters that lie before
  index 4 of the stripped name (at most four, at most three after a trimmed separator),
  lower-casing them and trimming one trailing \<^verbatim>\<open>-\<close> or \<^verbatim>\<open>_\<close>; \<^verbatim>\<open>PREFIX\<close> is its upper-cased
  form and \<^verbatim>\<open>Prefix\<close> is the first character of \<^verbatim>\<open>PREFIX\<close> followed by the remaining
  characters of \<^verbatim>\<open>prefix\<close>; the name \<^verbatim>\<open>divi-foo-extension\<close> yields \<^verbatim>\<open>foo\<close>, \<^verbatim>\<open>FOO\<close>, \<^verbatim>\<open>Foo\<close>.
\<close>

theorem prefix_by_index:
  assumes "list_all notLineTerminator name"
  shows "prefix_lc (derivePrefix name) = indexedPrefix name
         \<and> prefix_uc (derivePrefix name) = toUpperCase (indexedPrefix name)
         \<and> prefix_tc (derivePrefix name)
             = take 1 (toUpperCase (indexedPrefix name)) @ drop 1 (indexedPrefix name)
         \<and> derivePrefix ''divi-foo-extension''
             = \<lparr>prefix_lc = ''foo'', prefix_uc = ''FOO'', prefix_tc = ''Foo''\<rparr>"
proof -
  have "prefix_lc (derivePrefix name) = indexedPrefix name"
    using assms
    by (simp add: derivePrefix_trim truncatedPrefix_indexed strippedName_single_line indexedPrefix_def)
  then show ?thesis
    by (simp add: derivePrefix_cases example_name_context)
qed

lemma separated_name_single_line: "list_all notLineTerminator ''divi_ab-cd''"
  by code_simp

lemma separated_name_indexed: "indexedPrefix ''divi_ab-cd'' = ''ab''"
  by code_simp

theorem prefix_by_index_witness:
  "list_all notLineTerminator ''divi_ab-cd'' \<and> prefix_lc (derivePrefix ''divi_ab-cd'') = ''ab''"
  using prefix_by_index [OF separated_name_single_line] separated_name_single_line
    separated_name_indexed by simp

text \<open>
  C10: for every project name whose stripped form is empty, such as \<^verbatim>\<open>divi\<close> itself,
  the derivation yields the empty string for \<^verbatim>\<open>prefix\<close>, \<^verbatim>\<open>PREFIX\<close> and \<^verbatim>\<open>Prefix\<close>. No
  step of the derivation can throw: reading index 0 or index -1 of the empty string
  gives \<^verbatim>\<open>undefined\<close>, which is no separator, and \<^verbatim>\<open>substring\<close>, \<^verbatim>\<open>charAt\<close> and \<^verbatim>\<open>slice\<close>
  return the empty string.
\<close>

theorem empty_stripped_name:
  assumes "strippedName name = []"
  shows "derivePrefix name = \<lparr>prefix_lc = [], prefix_uc = [], prefix_tc = []\<rparr>"
  using assms
  by (simp add: derivePrefix_def truncatedPrefix_def charAtIndex_def isSeparator_def
      substring_def toLowerCase_def toUpperCase_def)

lemma divi_stripped: "strippedName ''divi'' = []"
  by code_simp

theorem empty_stripped_name_witness:
  "strippedName ''divi'' = [] \<and> derivePrefix ''divi'' = \<lparr>prefix_lc = [], prefix_uc = [], prefix_tc = []\<rparr>"
  using empty_stripped_name [OF divi_stripped] divi_stripped by simp

section \<open>The connectivity probe\<close>

text \<open>
  C8: when the package manager is not yarn the probe answers true and leaves the world
  as it is, so no name is resolved; when it is yarn the probe resolves the registry host
  once and answers false exactly when the lookup reports an error. In both cases the
  promise is resolved, never rejected.
\<close>

theorem connectivity_probe:
  "checkIfOnline e False w = (Resolve True, w)
   \<and> fst (checkIfOnline e True w) = Resolve (dns_lookup e ''registry.yarnpkg.com'' = None)
   \<and> filter isDnsLookup (trace (snd (checkIfOnline e True w)))
       = filter isDnsLookup (trace w) @ [DnsLookup ''registry.yarnpkg.com'']
   \<and> dir (snd (checkIfOnline e True w)) = dir w"
  by (simp add: checkIfOnline_def emit_def)

section \<open>The caret rewrite\<close>

lemma makeCaretRange_present:
  assumes "map_of deps name = Some version"
  shows "fst (makeCaretRange e deps name w)
           = Resolve (AList.update name
                (if semver_validRange e (''^'' @ version) then ''^'' @ version else version) deps)"
  using assms by (simp add: makeCaretRange_def Let_def)

text \<open>
  C4: the caret rewrite is idempotent. \<^verbatim>\<open>semver.validRange\<close> is a parameter; of it the
  theorem asks that no text beginning with \<^verbatim>\<open>^^\<close> is a valid range. Then for every
  version string stored under the name, \<^verbatim>\<open>makeCaretRange\<close> returns, a second application
  to the object it returned leaves that object unchanged, and the stored range begins
  with \<^verbatim>\<open>^^\<close> only if the version string already did.
\<close>

theorem caret_rewrite_idempotent:
  assumes no_double: "\<And>s. \<not> semver_validRange e (''^^'' @ s)"
    and present: "map_of deps name = Some version"
  shows "\<exists>deps1. fst (makeCaretRange e deps name w) = Resolve deps1
           \<and> fst (makeCaretRange e deps1 name (snd (makeCaretRange e deps name w))) = Resolve deps1
           \<and> prefix ''^^'' (the (map_of deps1 name)) = prefix ''^^'' version"
proof (cases "semver_validRange e (''^'' @ version)")
  case True
  let ?deps1 = "AList.update name (''^'' @ version) deps"
  have first: "fst (makeCaretRange e deps name w) = Resolve ?deps1"
    using True by (simp add: makeCaretRange_present [OF present])
  have stored: "map_of ?deps1 name = Some (''^'' @ version)"
    by (simp add: update_conv')
  have "\<not> semver_validRange e (''^'' @ ''^'' @ version)"
    using no_double [of version] by simp
  then have second: "fst (makeCaretRange e ?deps1 name w') = Resolve ?deps1" for w'
    using makeCaretRange_present [OF stored, of e w'] by simp
  have "\<not> prefix ''^^'' version"
  proof
    assume "prefix ''^^'' version"
    then obtain s where "version = ''^^'' @ s" by (auto simp: prefix_def)
    with True no_double [of "''^'' @ s"] show False by simp
  qed
  moreover have "\<not> prefix ''^^'' (''^'' @ version)"
  proof
    assume "prefix ''^^'' (''^'' @ version)"
    then obtain s where "version = ''^'' @ s" by (cases version) auto
    with True no_double [of s] show False by simp
  qed
  ultimately show ?thesis using first second stored by simp
next
  case False
  let ?deps1 = "AList.update name version deps"
  have first: "fst (makeCaretRange e deps name w) = Resolve ?deps1"
    using False by (simp add: makeCaretRange_present [OF present])
  have stored: "map_of ?deps1 name = Some version"
    by (simp add: update_conv')
  have second: "fst (makeCaretRange e ?deps1 name w') = Resolve ?deps1" for w'
    using False makeCaretRange_present [OF stored, of e w'] by simp
  show ?thesis using first second stored by simp
qed

lemma demo_no_double_caret: "\<not> semver_validRange demoEnv (''^^'' @ s)"
  by (simp add: demoEnv_def demoValidRange_def isDigit_def)

lemma demo_react_present: "map_of [(''react'', ''16.2.0'')] ''react'' = Some ''16.2.0''"
  by simp

theorem caret_rewrite_idempotent_witness:
  "\<exists>deps1. fst (makeCaretRange demoEnv [(''react'', ''16.2.0'')] ''react'' emptyWorld) = Resolve deps1
     \<and> fst (makeCaretRange demoEnv deps1 ''react''
              (snd (makeCaretRange demoEnv [(''react'', ''16.2.0'')] ''react'' emptyWorld))) = Resolve deps1
     \<and> \<not> prefix ''^^'' (the (map_of deps1 ''react''))"
  using caret_rewrite_idempotent [of demoEnv "[(''react'', ''16.2.0'')]" "''react''" "''16.2.0''" emptyWorld,
      OF demo_no_double_caret demo_react_present]
  by simp

section \<open>The resolver on version numbers\<close>

lemma tgz_not_in_package_name:
  "sublist ''.tgz'' (''react-scripts@'' @ v) \<Longrightarrow> sublist ''.tgz'' v"
  by (simp add: sublist_Cons_right)

lemma getPackageName_versioned:
  assumes "\<not> sublist ''.tgz'' v"
  shows "getPackageName e (''react-scripts@'' @ v) w = (Resolve ''react-scripts'', w)"
proof -
  have "\<not> sublist ''.tgz'' (''react-scripts@'' @ v)"
    using assms tgz_not_in_package_name by blast
  then have a: "\<not> indexOf (''react-scripts@'' @ v) ''.tgz'' > - 1"
    by (simp only: indexOf_found_iff not_False_eq_True)
  have b: "indexOf (''react-scripts@'' @ v) ''git+'' \<noteq> 0"
    by (simp add: indexOf_zero_iff)
  have c: "indexOf (''react-scripts@'' @ v) ''@'' = 13"
    by (simp add: indexOf_def)
  show ?thesis
    unfolding getPackageName_def using a b c by simp
qed

lemma getPackageName_default:
  "getPackageName e ''react-scripts'' w = (Resolve ''react-scripts'', w)"
proof -
  have a: "indexOf ''react-scripts'' ''.tgz'' = - 1" by code_simp
  have b: "indexOf ''react-scripts'' ''git+'' = - 1" by code_simp
  have c: "indexOf ''react-scripts'' ''@'' = - 1" by code_simp
  show ?thesis unfolding getPackageName_def using a b c by simp
qed

text \<open>
  For a versionSpec that \<^verbatim>\<open>semver.valid\<close> (a parameter) accepts, answering a non-empty
  version without \<^verbatim>\<open>.tgz\<close> in it, the install target is \<^verbatim>\<open>react-scripts@\<close> followed by
  that version and the display name is \<^verbatim>\<open>react-scripts\<close>; for an absent versionSpec, which
  \<^verbatim>\<open>semver.valid\<close> rejects, both are \<^verbatim>\<open>react-scripts\<close>.
\<close>

lemma resolver_version:
  assumes accepted: "semver_valid e (Some v) = Some v'"
    and nonempty: "v' \<noteq> []"
    and plain: "\<not> sublist ''.tgz'' v'"
    and absent: "semver_valid e None = None"
  shows "getInstallPackage e (Some v) = ''react-scripts@'' @ v'
         \<and> getPackageName e (getInstallPackage e (Some v)) w = (Resolve ''react-scripts'', w)
         \<and> getInstallPackage e None = ''react-scripts''
         \<and> getPackageName e (getInstallPackage e None) w = (Resolve ''react-scripts'', w)"
proof -
  have target: "getInstallPackage e (Some v) = ''react-scripts@'' @ v'"
    using accepted nonempty by (simp add: getInstallPackage_def truthy_def)
  have name: "getPackageName e (getInstallPackage e (Some v)) w = (Resolve ''react-scripts'', w)"
    unfolding target using plain by (rule getPackageName_versioned)
  have default: "getInstallPackage e None = ''react-scripts''"
    using absent by (simp add: getInstallPackage_def truthy_def)
  have name': "getPackageName e (getInstallPackage e None) w = (Resolve ''react-scripts'', w)"
    unfolding default by (rule getPackageName_default)
  from target name default name' show ?thesis by blast
qed

lemma demo_version_accepted: "semver_valid demoEnv (Some ''0.8.2'') = Some ''0.8.2''"
  by code_simp

lemma demo_version_nonempty: "''0.8.2'' \<noteq> []"
  by simp

lemma demo_version_plain: "\<not> sublist ''.tgz'' ''0.8.2''"
  by code_simp

lemma demo_absent_rejected: "semver_valid demoEnv None = None"
  by code_simp

lemma resolver_version_example:
  "getInstallPackage demoEnv (Some ''0.8.2'') = ''react-scripts@0.8.2''
   \<and> getPackageName demoEnv (getInstallPackage demoEnv (Some ''0.8.2'')) emptyWorld
       = (Resolve ''react-scripts'', emptyWorld)
   \<and> getInstallPackage demoEnv None = ''react-scripts''
   \<and> getPackageName demoEnv (getInstallPackage demoEnv None) emptyWorld
       = (Resolve ''react-scripts'', emptyWorld)"
  using resolver_version [OF demo_version_accepted demo_version_nonempty demo_version_plain
      demo_absent_rejected, of emptyWorld]
  by auto

text \<open>
  C5 does not hold of the program for a version whose pre-release contains \<^verbatim>\<open>.tgz\<close>.
  The version \<^verbatim>\<open>1.0.0-rc.tgz\<close> is a valid semantic version (pre-release identifiers \<^verbatim>\<open>rc\<close>
  and \<^verbatim>\<open>tgz\<close>). \<^verbatim>\<open>getInstallPackage\<close> builds \<^verbatim>\<open>react-scripts@1.0.0-rc.tgz\<close> from it, and
  \<^verbatim>\<open>getPackageName\<close>, which tests for \<^verbatim>\<open>.tgz\<close> before it looks for \<^verbatim>\<open>@\<close>, takes that target
  for the path of an archive. No such file exists, the read stream emits \<^verbatim>\<open>ENOENT\<close>, and
  the process dies: no display name is returned, nothing is rolled back, and the
  manifest written by \<^verbatim>\<open>createApp\<close> stays behind.
\<close>

theorem prerelease_tgz_version_dies:
  "semver_valid demoEnv (Some ''1.0.0-rc.tgz'') = Some ''1.0.0-rc.tgz''
   \<and> getInstallPackage demoEnv (Some ''1.0.0-rc.tgz'') = ''react-scripts@1.0.0-rc.tgz''
   \<and> stream_error demoEnv ''react-scripts@1.0.0-rc.tgz'' = Some ''ENOENT: no such file or directory''
   \<and> getPackageName demoEnv ''react-scripts@1.0.0-rc.tgz'' emptyWorld
       = (Uncaught ''ENOENT: no such file or directory'', emptyWorld)
   \<and> fst (createApp demoEnv ''divi-sample'' False (Some ''1.0.0-rc.tgz'') emptyWorld)
       = Uncaught ''ENOENT: no such file or directory''
   \<and> map_option (map fst) (dir (snd (createApp demoEnv ''divi-sample'' False (Some ''1.0.0-rc.tgz'') emptyWorld)))
       = Some [''package.json'']
   \<and> filter isRemove (trace (snd (createApp demoEnv ''divi-sample'' False (Some ''1.0.0-rc.tgz'') emptyWorld)))
       = []"
  by code_simp

section \<open>The resolver on archives\<close>

lemma archive_fallback_example:
  "matchTgz ''https://mysite.com/my-react-scripts-0.8.2.tgz'' = Some ''my-react-scripts''"
  by code_simp

text \<open>
  The fallback pattern needs a \<^verbatim>\<open>/\<close>: for a bare file name, such as the
  \<^verbatim>\<open>react-scripts-0.2.0-alpha.1.tgz\<close> of the comment in the handler, there is no match.
\<close>

lemma tgzDir_needs_slash:
  assumes "CHR ''/'' \<notin> set s"
  shows "tgzDir s k = None"
proof (induction k)
  case 0
  show ?case by simp
next
  case (Suc k)
  have "charAtIndex s (int (Suc k)) \<noteq> Some CHR ''/''"
  proof
    assume "charAtIndex s (int (Suc k)) = Some CHR ''/''"
    moreover have "nat (int (Suc k)) = Suc k" by (rule nat_int)
    ultimately have "Suc k < length s \<and> s ! Suc k = CHR ''/''"
      unfolding charAtIndex_def by (simp only: split: if_splits) auto
    then have "CHR ''/'' \<in> set s" by (metis nth_mem)
    with assms show False by simp
  qed
  with Suc.IH show ?case by simp
qed

lemma archive_fallback_without_slash:
  assumes archive: "sublist ''.tgz'' spec"
    and bare: "CHR ''/'' \<notin> set spec"
    and streamed: "stream_error e spec = None"
    and failed: "read_archive e spec = Inl message"
  shows "fst (getPackageName e spec w) = Reject (UnexpectedError typeError)"
proof -
  have a: "indexOf spec ''.tgz'' > - 1" using archive by (simp only: indexOf_found_iff)
  have b: "matchTgz spec = None" using bare by (simp add: matchTgz_def tgzDir_needs_slash)
  show ?thesis unfolding getPackageName_def using a b streamed failed by (simp add: Let_def)
qed

text \<open>
  C6 does not hold of the program: the fallback reads group 1 of a match that may be
  \<^verbatim>\<open>null\<close>. For the specifier \<^verbatim>\<open>https://example.com/my-scripts-0.8.2.tgz?raw=1\<close>, which
  contains \<^verbatim>\<open>.tgz\<close> but does not end with it, a failed read of the archive is logged and
  then the handler throws a TypeError: the promise is rejected, where the claim has the
  display name \<^verbatim>\<open>my-scripts\<close> and no fatal error.
\<close>

theorem archive_fallback_fails:
  "indexOf ''https://example.com/my-scripts-0.8.2.tgz?raw=1'' ''.tgz'' > - 1
   \<and> read_archive demoEnv ''https://example.com/my-scripts-0.8.2.tgz?raw=1'' = Inl ''unexpected end of file''
   \<and> getPackageName demoEnv ''https://example.com/my-scripts-0.8.2.tgz?raw=1'' emptyWorld
       = (Reject (UnexpectedError typeError),
          console ''Could not extract the package name from the archive: unexpected end of file'' emptyWorld)"
  by code_simp

section \<open>The resolver on git specifiers\<close>

lemma gitBacktrack_step:
  "gitBacktrack s (Suc k) = (if gitHit s (Suc k) then Some (take (Suc k) s) else gitBacktrack s k)"
  by (simp add: gitHit_def)

lemma gitBacktrack_none:
  assumes "\<And>j. 0 < j \<Longrightarrow> j \<le> k \<Longrightarrow> \<not> gitHit s j"
  shows "gitBacktrack s k = None"
  using assms
proof (induction k)
  case 0
  show ?case by simp
next
  case (Suc k)
  have "\<not> gitHit s (Suc k)" using Suc.prems [of "Suc k"] by simp
  moreover have "gitBacktrack s k = None" using Suc.prems by (intro Suc.IH) simp_all
  ultimately show ?case by (simp only: gitBacktrack_step if_False)
qed

lemma gitBacktrack_some:
  assumes "0 < j" "j \<le> k" "gitHit s j"
    and "\<And>i. j < i \<Longrightarrow> i \<le> k \<Longrightarrow> \<not> gitHit s i"
  shows "gitBacktrack s k = Some (take j s)"
  using assms
proof (induction k)
  case 0
  then show ?case by simp
next
  case (Suc k)
  show ?case
  proof (cases "j = Suc k")
    case True
    with Suc.prems(3) show ?thesis by (simp only: gitBacktrack_step if_True)
  next
    case False
    with Suc.prems have le: "j \<le> k" and miss: "\<not> gitHit s (Suc k)" by simp_all
    have "gitBacktrack s k = Some (take j s)"
      using Suc.prems(1) le Suc.prems(3) Suc.prems(4) by (intro Suc.IH) simp_all
    with miss show ?thesis by (simp only: gitBacktrack_step if_False)
  qed
qed

lemma take4_sublist:
  assumes h: "take 4 (drop n xs) = ''.git''"
  shows "sublist ''.git'' xs"
proof -
  have "xs = take n xs @ drop n xs" by simp
  also have "drop n xs = take 4 (drop n xs) @ drop 4 (drop n xs)"
    by (simp only: append_take_drop_id)
  finally have "xs = take n xs @ ''.git'' @ drop 4 (drop n xs)"
    using h by simp
  then show ?thesis unfolding sublist_def by blast
qed

lemma no_hit_after_suffix:
  assumes later: "length seg < i" and clean: "\<not> sublist ''.git'' ref"
  shows "\<not> gitHit (seg @ ''.git'' @ ref) i"
proof
  assume "gitHit (seg @ ''.git'' @ ref) i"
  then have h: "take 4 (drop (i - length seg) (''.git'' @ ref)) = ''.git''"
    using later by (simp add: gitHit_def)
  define d where "d = i - length seg"
  have pos: "0 < d" using later by (simp add: d_def)
  from h have hd: "take 4 (drop d (''.git'' @ ref)) = ''.git''" by (simp only: d_def)
  consider "d = 1" | "d = 2" | "d = 3" | "4 \<le> d" using pos by linarith
  then show False
  proof cases
    case 1
    with hd show False by simp
  next
    case 2
    with hd show False by (simp add: numeral_2_eq_2)
  next
    case 3
    with hd show False by (simp add: numeral_3_eq_3)
  next
    case 4
    then obtain m where m: "d = 4 + m" using le_Suc_ex by blast
    have "drop (4 + m) (''.git'' @ ref) = drop m ref" by (simp add: numeral_eq_Suc)
    with hd m have "take 4 (drop m ref) = ''.git''" by simp
    then have "sublist ''.git'' ref" by (rule take4_sublist)
    with clean show False by simp
  qed
qed

lemma gitBacktrack_segment:
  assumes seg: "seg \<noteq> []" "CHR ''/'' \<notin> set seg"
    and tail: "gitTail ref" and clean: "\<not> sublist ''.git'' ref"
  shows "gitBacktrack (seg @ ''.git'' @ ref)
           (length (takeWhile notSlash (seg @ ''.git'' @ ref))) = Some seg"
proof -
  let ?s = "seg @ ''.git'' @ ref"
  have "takeWhile notSlash ?s = seg @ takeWhile notSlash (''.git'' @ ref)"
    using seg(2) by (intro takeWhile_append2) (auto simp: notSlash_def)
  then have le: "length seg \<le> length (takeWhile notSlash ?s)" by simp
  have pos: "0 < length seg" using seg(1) by simp
  have hit: "gitHit ?s (length seg)" using tail by (simp add: gitHit_def)
  have "gitBacktrack ?s (length (takeWhile notSlash ?s)) = Some (take (length seg) ?s)"
    using pos le hit no_hit_after_suffix [OF _ clean] by (rule gitBacktrack_some)
  then show ?thesis by simp
qed

lemma takeWhile_stops:
  assumes "x \<in> set p" "\<not> P x"
  shows "length (takeWhile P p) < length p \<and> \<not> P (p ! length (takeWhile P p))"
proof -
  have "takeWhile P p \<noteq> p" using assms by (auto simp: takeWhile_eq_all_conv)
  moreover have "takeWhile P p = take (length (takeWhile P p)) p" by (rule takeWhile_eq_take)
  ultimately have "length (takeWhile P p) \<noteq> length p" by (metis take_all order_refl)
  with length_takeWhile_le [of P p] have "length (takeWhile P p) < length p" by simp
  then show ?thesis by (simp add: nth_length_takeWhile)
qed

lemma four_letters: "i < 4 \<Longrightarrow> ''.git'' ! i \<noteq> CHR ''/''"
proof -
  assume "i < 4"
  then consider "i = 0" | "i = 1" | "i = 2" | "i = 3" by linarith
  then show ?thesis by cases (simp_all add: numeral_2_eq_2 numeral_3_eq_3)
qed

lemma nth_of_take_drop:
  assumes "take n (drop j s) = t" "i < n" "j + n \<le> length s"
  shows "s ! (j + i) = t ! i"
proof -
  have "take n (drop j s) ! i = s ! (j + i)" using assms(2,3) by simp
  with assms(1) show ?thesis by simp
qed

lemma length_of_take_drop:
  assumes "take n (drop j s) = t" "length t = n" "0 < n"
  shows "j + n \<le> length s"
proof -
  have "length (take n (drop j s)) = n" using assms by simp
  then have "min (length s - j) n = n" by simp
  with assms(3) show ?thesis by arith
qed

lemma gitBacktrack_before_slash:
  assumes slash: "last p = CHR ''/''" and nonempty: "p \<noteq> []" and nohash: "CHR ''#'' \<notin> set p"
  shows "gitBacktrack (p @ rest) (length (takeWhile notSlash (p @ rest))) = None"
proof (rule gitBacktrack_none)
  fix j
  let ?s = "p @ rest"
  let ?n = "length (takeWhile notSlash ?s)"
  assume j: "0 < j" "j \<le> ?n"
  have inp: "CHR ''/'' \<in> set p" using slash nonempty last_in_set by metis
  have tw: "takeWhile notSlash ?s = takeWhile notSlash p"
    using inp by (intro takeWhile_append1 [of "CHR ''/''"]) (auto simp: notSlash_def)
  have stop: "length (takeWhile notSlash p) < length p
              \<and> \<not> notSlash (p ! length (takeWhile notSlash p))"
    using inp by (intro takeWhile_stops [of "CHR ''/''"]) (auto simp: notSlash_def)
  then have n_lt: "?n < length p" and at_n: "p ! ?n = CHR ''/''"
    by (simp_all add: tw notSlash_def)
  show "\<not> gitHit ?s j"
  proof
    assume hit: "gitHit ?s j"
    then have t4: "take 4 (drop j ?s) = ''.git''" and tail: "gitTail (drop (j + 4) ?s)"
      by (simp_all add: gitHit_def)
    have len: "j + 4 \<le> length ?s" using t4 by (rule length_of_take_drop) simp_all
    have chars: "?s ! (j + i) = ''.git'' ! i" if "i < 4" for i
      using t4 that len by (rule nth_of_take_drop)
    have "j + 4 \<le> ?n"
    proof (rule ccontr)
      assume "\<not> j + 4 \<le> ?n"
      with j(2) have i: "?n - j < 4" "?n = j + (?n - j)" by simp_all
      have "?s ! ?n = CHR ''/''" using at_n n_lt by (simp add: nth_append)
      with chars [OF i(1)] i(2) have "''.git'' ! (?n - j) = CHR ''/''" by simp
      with four_letters [OF i(1)] show False by simp
    qed
    with n_lt have in_p: "j + 4 < length p" by simp
    then have "drop (j + 4) p = p ! (j + 4) # drop (Suc (j + 4)) p"
      by (rule Cons_nth_drop_Suc [symmetric])
    moreover have "drop (j + 4) ?s = drop (j + 4) p @ rest" using in_p by simp
    ultimately have "drop (j + 4) ?s = p ! (j + 4) # (drop (Suc (j + 4)) p @ rest)" by simp
    with tail have "p ! (j + 4) = CHR ''#''" by (simp add: gitTail_def)
    with in_p nohash show False by (metis nth_mem)
  qed
qed

lemma gitSearch_skip:
  assumes "p = [] \<or> last p = CHR ''/''" and "CHR ''#'' \<notin> set p"
  shows "gitSearch (p @ rest) = gitSearch rest"
  using assms
proof (induction p)
  case Nil
  show ?case by simp
next
  case (Cons c p)
  have last: "last (c # p) = CHR ''/''" using Cons.prems(1) by simp
  have none: "gitBacktrack ((c # p) @ rest) (length (takeWhile notSlash ((c # p) @ rest))) = None"
    using last _ Cons.prems(2) by (rule gitBacktrack_before_slash) simp
  have "p = [] \<or> last p = CHR ''/''" using last by (cases p) auto
  moreover have "CHR ''#'' \<notin> set p" using Cons.prems(2) by simp
  ultimately have IH: "gitSearch (p @ rest) = gitSearch rest" by (rule Cons.IH)
  have "gitSearch ((c # p) @ rest) = gitSearch (p @ rest)"
    using none by (simp del: gitBacktrack.simps)
  with IH show ?case by simp
qed

lemma matchGit_segment:
  assumes pre: "pre = [] \<or> last pre = CHR ''/''" and nohash: "CHR ''#'' \<notin> set pre"
    and seg: "seg \<noteq> []" "CHR ''/'' \<notin> set seg"
    and tail: "gitTail ref" and clean: "\<not> sublist ''.git'' ref"
  shows "matchGit (pre @ seg @ ''.git'' @ ref) = Some seg"
proof -
  obtain c cs where c: "seg = c # cs" using seg(1) by (cases seg) auto
  have "gitBacktrack (seg @ ''.git'' @ ref) (length (takeWhile notSlash (seg @ ''.git'' @ ref))) = Some seg"
    using seg tail clean by (rule gitBacktrack_segment)
  then have "gitSearch (seg @ ''.git'' @ ref) = Some seg"
    unfolding c by (simp del: gitBacktrack.simps)
  moreover have "gitSearch (pre @ seg @ ''.git'' @ ref) = gitSearch (seg @ ''.git'' @ ref)"
    using pre nohash by (rule gitSearch_skip)
  ultimately show ?thesis by (simp add: matchGit_def)
qed

lemma getPackageName_git:
  assumes git: "prefix ''git+'' spec" and notgz: "\<not> sublist ''.tgz'' spec"
  shows "getPackageName e spec w
           = (case matchGit spec of None \<Rightarrow> (Uncaught typeError, w)
              | Some packageName \<Rightarrow> (Resolve packageName, w))"
proof -
  have a: "\<not> indexOf spec ''.tgz'' > - 1" using notgz by (simp only: indexOf_found_iff not_False_eq_True)
  have b: "indexOf spec ''git+'' = 0" using git by (simp only: indexOf_zero_iff)
  show ?thesis unfolding getPackageName_def using a b by simp
qed

lemma example_git_prefix: "prefix ''git+'' ''git+https://example.com/x/my-pkg.git#v1.2.3''"
  by code_simp

lemma example_git_no_archive: "\<not> sublist ''.tgz'' ''git+https://example.com/x/my-pkg.git#v1.2.3''"
  by code_simp

lemma example_git_match: "matchGit ''git+https://example.com/x/my-pkg.git#v1.2.3'' = Some ''my-pkg''"
  by code_simp

lemma example_git_name:
  "getPackageName e ''git+https://example.com/x/my-pkg.git#v1.2.3'' w = (Resolve ''my-pkg'', w)"
  using getPackageName_git [OF example_git_prefix example_git_no_archive, of e w]
  by (simp only: example_git_match option.case)

text \<open>
  Where the pattern finds the name it is meant to find: the specifier begins with
  \<^verbatim>\<open>git+\<close>, does not contain \<^verbatim>\<open>.tgz\<close>, and consists of a part without \<^verbatim>\<open>#\<close> that is empty
  or ends with \<^verbatim>\<open>/\<close>, a non-empty path segment without \<^verbatim>\<open>/\<close>, the text \<^verbatim>\<open>.git\<close>, and then
  nothing or a \<^verbatim>\<open>#\<close> and a reference that contains neither a line terminator nor
  \<^verbatim>\<open>.git\<close>. Then the display name is that path segment, and the install target is the
  specifier unchanged, given that \<^verbatim>\<open>semver.valid\<close> (a parameter) rejects the specifier.
\<close>

lemma git_display_name:
  assumes shape: "spec = pre @ seg @ ''.git'' @ ref"
    and git: "prefix ''git+'' spec"
    and notgz: "\<not> sublist ''.tgz'' spec"
    and pre: "pre = [] \<or> last pre = CHR ''/''"
    and nohash: "CHR ''#'' \<notin> set pre"
    and seg: "seg \<noteq> []" "CHR ''/'' \<notin> set seg"
    and ref: "ref = [] \<or> (\<exists>r. ref = CHR ''#'' # r \<and> list_all notLineTerminator r)"
    and clean: "\<not> sublist ''.git'' ref"
    and rejected: "\<not> truthy (semver_valid e (Some spec))"
  shows "getPackageName e spec w = (Resolve seg, w)
         \<and> getInstallPackage e (Some spec) = spec
         \<and> getPackageName e ''git+https://example.com/x/my-pkg.git#v1.2.3'' w = (Resolve ''my-pkg'', w)"
proof -
  have tail: "gitTail ref" using ref by (auto simp: gitTail_def)
  have "matchGit spec = Some seg"
    unfolding shape using pre nohash seg tail clean by (rule matchGit_segment)
  then have name: "getPackageName e spec w = (Resolve seg, w)"
    using getPackageName_git [OF git notgz, of e w] by simp
  have "spec \<noteq> []" using git by auto
  then have target: "getInstallPackage e (Some spec) = spec"
    using rejected by (simp add: getInstallPackage_def truthy_def)
  from name target example_git_name show ?thesis by blast
qed

lemma example_git_shape:
  "''git+https://example.com/x/my-pkg.git#v1.2.3''
     = ''git+https://example.com/x/'' @ ''my-pkg'' @ ''.git'' @ ''#v1.2.3''"
  by simp

lemma example_git_pre:
  "''git+https://example.com/x/'' = [] \<or> last ''git+https://example.com/x/'' = CHR ''/''"
  by simp

lemma example_git_nohash: "CHR ''#'' \<notin> set ''git+https://example.com/x/''"
  by simp

lemma example_git_seg: "''my-pkg'' \<noteq> []" "CHR ''/'' \<notin> set ''my-pkg''"
  by simp_all

lemma example_git_ref: "''#v1.2.3'' = [] \<or> (\<exists>r. ''#v1.2.3'' = CHR ''#'' # r \<and> list_all notLineTerminator r)"
  by (simp add: notLineTerminator_def lineTerminator_def)

lemma example_git_clean: "\<not> sublist ''.git'' ''#v1.2.3''"
  by code_simp

lemma example_git_rejected:
  "\<not> truthy (semver_valid demoEnv (Some ''git+https://example.com/x/my-pkg.git#v1.2.3''))"
  by code_simp

lemma git_display_name_example:
  "getPackageName demoEnv ''git+https://example.com/x/my-pkg.git#v1.2.3'' emptyWorld
     = (Resolve ''my-pkg'', emptyWorld)
   \<and> getInstallPackage demoEnv (Some ''git+https://example.com/x/my-pkg.git#v1.2.3'')
     = ''git+https://example.com/x/my-pkg.git#v1.2.3''"
  using git_display_name [OF example_git_shape example_git_prefix example_git_no_archive
      example_git_pre example_git_nohash example_git_seg example_git_ref example_git_clean
      example_git_rejected, of emptyWorld]
  by blast

text \<open>
  C7 does not hold of the program. In \<^verbatim>\<open>git+https://h/a.git#b.git\<close> the path segment
  before \<^verbatim>\<open>.git\<close> is \<^verbatim>\<open>a\<close> and \<^verbatim>\<open>#b.git\<close> is the reference to ignore, but \<^verbatim>\<open>[^\/]+\<close> also
  matches \<^verbatim>\<open>#\<close> and is greedy, so the program takes the last \<^verbatim>\<open>.git\<close> of the text and
  returns \<^verbatim>\<open>a.git#b\<close>. For a git specifier without \<^verbatim>\<open>.git\<close>, such as
  \<^verbatim>\<open>git+https://github.com/user/repo\<close>, the pattern does not match and reading group 1 of
  \<^verbatim>\<open>null\<close> throws before any promise exists.
\<close>

theorem git_reference_taken_for_name:
  "prefix ''git+'' ''git+https://h/a.git#b.git''
   \<and> getPackageName demoEnv ''git+https://h/a.git#b.git'' emptyWorld
       = (Resolve ''a.git#b'', emptyWorld)
   \<and> prefix ''git+'' ''git+https://github.com/user/repo''
   \<and> getPackageName demoEnv ''git+https://github.com/user/repo'' emptyWorld
       = (Uncaught typeError, emptyWorld)"
  by code_simp

section \<open>Effects that leave the target directory alone\<close>

lemma console_world [simp]:
  "dir (console msg w) = dir w"
  "trace (console msg w) = trace w @ [Log msg]"
  by (simp_all add: console_def emit_def)

lemma emit_world [simp]:
  "dir (emit x w) = dir w"
  "trace (emit x w) = trace w @ [x]"
  by (simp_all add: emit_def)

lemma printValidationResults_world:
  "dir (printValidationResults results w) = dir w
   \<and> filter writesOrInstalls (trace (printValidationResults results w)) = filter writesOrInstalls (trace w)"
proof (cases results)
  case None
  then show ?thesis by (simp add: printValidationResults_def)
next
  case (Some rs)
  have "dir (fold (\<lambda>error. console (''  *  '' @ error)) rs w) = dir w
        \<and> filter writesOrInstalls (trace (fold (\<lambda>error. console (''  *  '' @ error)) rs w))
            = filter writesOrInstalls (trace w)"
    by (induction rs arbitrary: w) simp_all
  with Some show ?thesis by (simp add: printValidationResults_def)
qed

lemma checkAppName_cases:
  "checkAppName e appName w = (Resolve (), w)
   \<or> (fst (checkAppName e appName w) = ProcessExit 1
       \<and> dir (snd (checkAppName e appName w)) = dir w
       \<and> filter writesOrInstalls (trace (snd (checkAppName e appName w)))
           = filter writesOrInstalls (trace w))"
  by (simp add: checkAppName_def Let_def printValidationResults_world)

section \<open>The guard on the target directory\<close>

lemma isSafeToCreateProjectIn_iff:
  "isSafeToCreateProjectIn entries \<longleftrightarrow> set (map fst entries) \<subseteq> set validFiles"
  by (auto simp: isSafeToCreateProjectIn_def list_all_iff)

lemma createApp_conflict:
  assumes name_ok: "checkAppName e (path_basename e (path_resolve e name)) w = (Resolve (), w)"
    and present: "dir w = Some entries"
    and unsafe: "\<not> isSafeToCreateProjectIn entries"
  shows "createApp e name verbose version w
           = (ProcessExit 1,
              console ''Try using a new directory name.''
                (console (''The directory '' @ name @ '' contains files that could conflict.'')
                  (ensureDirSync name w)))"
  using assms by (simp add: createApp_def thenIO_def ensureDirSync_def)

text \<open>
  C9: when the target directory holds an entry outside the fixed list \<open>validFiles\<close>,
  \<^verbatim>\<open>createApp\<close> ends with \<^verbatim>\<open>process.exit(1)\<close>, the directory is as it was, and nothing has
  been written or spawned: \<^verbatim>\<open>package.json\<close> is not written and no package manager runs. An
  empty directory passes the guard.
\<close>

theorem conflicting_directory_rejected:
  assumes present: "dir w = Some entries"
    and conflict: "file \<in> set (map fst entries)" "file \<notin> set validFiles"
  shows "fst (createApp e name verbose version w) = ProcessExit 1
         \<and> dir (snd (createApp e name verbose version w)) = Some entries
         \<and> filter writesOrInstalls (trace (snd (createApp e name verbose version w)))
             = filter writesOrInstalls (trace w)
         \<and> isSafeToCreateProjectIn []"
proof -
  have unsafe: "\<not> isSafeToCreateProjectIn entries"
    using conflict by (auto simp: isSafeToCreateProjectIn_iff)
  have empty: "isSafeToCreateProjectIn []" by (simp add: isSafeToCreateProjectIn_def)
  let ?appName = "path_basename e (path_resolve e name)"
  from checkAppName_cases [of e ?appName w] show ?thesis
  proof
    assume ok: "checkAppName e ?appName w = (Resolve (), w)"
    show ?thesis
      using present empty
      by (simp add: createApp_conflict [OF ok present unsafe] ensureDirSync_def)
  next
    assume stop: "fst (checkAppName e ?appName w) = ProcessExit 1
       \<and> dir (snd (checkAppName e ?appName w)) = dir w
       \<and> filter writesOrInstalls (trace (snd (checkAppName e ?appName w)))
           = filter writesOrInstalls (trace w)"
    then have "createApp e name verbose version w = checkAppName e ?appName w"
      by (cases "checkAppName e ?appName w") (simp add: createApp_def thenIO_def)
    with stop present empty show ?thesis by simp
  qed
qed

lemma occupied_present: "dir occupiedWorld = Some [(''.git'', Other), (''index.php'', Other)]"
  by (simp add: occupiedWorld_def)

lemma occupied_conflict:
  "''index.php'' \<in> set (map fst [(''.git'', Other), (''index.php'', Other)])"
  "''index.php'' \<notin> set validFiles"
  by (simp_all add: validFiles_def)

theorem conflicting_directory_rejected_witness:
  "fst (createApp demoEnv ''divi-sample'' False None occupiedWorld) = ProcessExit 1
   \<and> dir (snd (createApp demoEnv ''divi-sample'' False None occupiedWorld))
       = Some [(''.git'', Other), (''index.php'', Other)]"
  using conflicting_directory_rejected [OF occupied_present occupied_conflict,
      of demoEnv "''divi-sample''" False None]
  by blast

section \<open>The rollback\<close>

lemma generated_patterns:
  "matchesDotLog ''package.json'' = False"
  "matchesDotLog ''npm-debug.log'' = True"
  "matchesDotLog ''yarn-error.log'' = True"
  "matchesDotLog ''yarn-debug.log'' = True"
  "matchesDotLog ''node_modules'' = False"
  by code_simp+

lemma isGeneratedMatch_each:
  "isGeneratedMatch file ''package.json'' \<longleftrightarrow> file = ''package.json''"
  "isGeneratedMatch file ''npm-debug.log'' \<longleftrightarrow> prefix ''npm-debug.log'' file"
  "isGeneratedMatch file ''yarn-error.log'' \<longleftrightarrow> prefix ''yarn-error.log'' file"
  "isGeneratedMatch file ''yarn-debug.log'' \<longleftrightarrow> prefix ''yarn-debug.log'' file"
  "isGeneratedMatch file ''node_modules'' \<longleftrightarrow> file = ''node_modules''"
  unfolding isGeneratedMatch_def generated_patterns indexOf_zero_iff by auto

lemma two_prefixes:
  assumes "prefix a file" "prefix b file" "\<not> prefix a b" "\<not> prefix b a"
  shows False
  using assms prefix_same_cases by blast

lemma matches_once:
  "\<not> (file = ''package.json'' \<and> prefix ''npm-debug.log'' file)"
  "\<not> (file = ''package.json'' \<and> prefix ''yarn-error.log'' file)"
  "\<not> (file = ''package.json'' \<and> prefix ''yarn-debug.log'' file)"
  "\<not> (file = ''package.json'' \<and> file = ''node_modules'')"
  "\<not> (prefix ''npm-debug.log'' file \<and> prefix ''yarn-error.log'' file)"
  "\<not> (prefix ''npm-debug.log'' file \<and> prefix ''yarn-debug.log'' file)"
  "\<not> (prefix ''npm-debug.log'' file \<and> file = ''node_modules'')"
  "\<not> (prefix ''yarn-error.log'' file \<and> prefix ''yarn-debug.log'' file)"
  "\<not> (prefix ''yarn-error.log'' file \<and> file = ''node_modules'')"
  "\<not> (prefix ''yarn-debug.log'' file \<and> file = ''node_modules'')"
proof -
  show "\<not> (file = ''package.json'' \<and> prefix ''npm-debug.log'' file)" by auto
  show "\<not> (file = ''package.json'' \<and> prefix ''yarn-error.log'' file)" by auto
  show "\<not> (file = ''package.json'' \<and> prefix ''yarn-debug.log'' file)" by auto
  show "\<not> (file = ''package.json'' \<and> file = ''node_modules'')" by auto
  show "\<not> (prefix ''npm-debug.log'' file \<and> prefix ''yarn-error.log'' file)"
    using two_prefixes [of "''npm-debug.log''" "file" "''yarn-error.log''"] by auto
  show "\<not> (prefix ''npm-debug.log'' file \<and> prefix ''yarn-debug.log'' file)"
    using two_prefixes [of "''npm-debug.log''" "file" "''yarn-debug.log''"] by auto
  show "\<not> (prefix ''npm-debug.log'' file \<and> file = ''node_modules'')" by auto
  show "\<not> (prefix ''yarn-error.log'' file \<and> prefix ''yarn-debug.log'' file)"
    using two_prefixes [of "''yarn-error.log''" "file" "''yarn-debug.log''"] by auto
  show "\<not> (prefix ''yarn-error.log'' file \<and> file = ''node_modules'')" by auto
  show "\<not> (prefix ''yarn-debug.log'' file \<and> file = ''node_modules'')" by auto
qed

lemma deleteOne_once:
  "deleteOne e root file w =
     (if allowListed file
      then removeSync e root file (console (''Deleting generated file... '' @ file) w)
      else w)"
proof -
  consider (pkg) "file = ''package.json''" | (npm) "prefix ''npm-debug.log'' file"
    | (yerr) "prefix ''yarn-error.log'' file" | (ydbg) "prefix ''yarn-debug.log'' file"
    | (mods) "file = ''node_modules''" | (none) "\<not> allowListed file"
    by (auto simp: allowListed_def)
  then show ?thesis
  proof cases
    case pkg
    then show ?thesis
      using matches_once [of "file"]
      by (simp add: deleteOne_def knownGeneratedFiles_def isGeneratedMatch_each allowListed_def)
  next
    case npm
    then show ?thesis
      using matches_once [of "file"]
      by (simp add: deleteOne_def knownGeneratedFiles_def isGeneratedMatch_each allowListed_def)
  next
    case yerr
    then show ?thesis
      using matches_once [of "file"]
      by (simp add: deleteOne_def knownGeneratedFiles_def isGeneratedMatch_each allowListed_def)
  next
    case ydbg
    then show ?thesis
      using matches_once [of "file"]
      by (simp add: deleteOne_def knownGeneratedFiles_def isGeneratedMatch_each allowListed_def)
  next
    case mods
    then show ?thesis
      using matches_once [of "file"]
      by (simp add: deleteOne_def knownGeneratedFiles_def isGeneratedMatch_each allowListed_def)
  next
    case none
    then show ?thesis
      by (simp add: deleteOne_def knownGeneratedFiles_def isGeneratedMatch_each allowListed_def)
  qed
qed


lemma removeSync_world:
  "dir (removeSync e root file w) = map_option (filter (\<lambda>entry. fst entry \<noteq> file)) (dir w)"
  "trace (removeSync e root file w) = trace w @ [Remove (path_join e root file)]"
  by (simp_all add: removeSync_def emit_def)

lemma deleteOne_dir:
  "dir (deleteOne e root file w)
     = map_option (filter (\<lambda>entry. \<not> (fst entry = file \<and> allowListed file))) (dir w)"
  by (cases "dir w") (simp_all add: deleteOne_once removeSync_world )

lemma deleteOne_removes:
  "filter isRemove (trace (deleteOne e root file w))
     = filter isRemove (trace w) @ map (\<lambda>f. Remove (path_join e root f)) (filter allowListed [file])"
  by (simp add: deleteOne_once removeSync_world )

lemma deleteGenerated_dir:
  "dir (deleteGenerated e root files w)
     = map_option (filter (\<lambda>entry. \<not> (fst entry \<in> set files \<and> allowListed (fst entry)))) (dir w)"
proof (induction files arbitrary: w)
  case Nil
  show ?case by (cases "dir w") (simp_all add: deleteGenerated_def)
next
  case (Cons f fs)
  have "deleteGenerated e root (f # fs) w = deleteGenerated e root fs (deleteOne e root f w)"
    by (simp add: deleteGenerated_def)
  then show ?case
    by (cases "dir w") (auto simp: Cons.IH deleteOne_dir intro!: filter_cong)
qed

lemma deleteGenerated_removes:
  "filter isRemove (trace (deleteGenerated e root files w))
     = filter isRemove (trace w) @ map (\<lambda>f. Remove (path_join e root f)) (filter allowListed files)"
proof (induction files arbitrary: w)
  case Nil
  show ?case by (simp add: deleteGenerated_def)
next
  case (Cons f fs)
  have "deleteGenerated e root (f # fs) w = deleteGenerated e root fs (deleteOne e root f w)"
    by (simp add: deleteGenerated_def)
  then show ?case
    by (simp add: Cons.IH deleteOne_removes)
qed

lemma reportFailure_world:
  "dir (reportFailure reason w) = dir w"
  "filter isRemove (trace (reportFailure reason w)) = filter isRemove (trace w)"
  by (cases reason, simp_all add: reportFailure_def Let_def)+

lemma rollback_result:
  assumes listing: "dir w = Some entries"
  shows "fst (rollback e root appName reason w) = ProcessExit 1
         \<and> dir (snd (rollback e root appName reason w))
             = (if filter (\<lambda>entry. \<not> allowListed (fst entry)) entries = [] then None
                else Some (filter (\<lambda>entry. \<not> allowListed (fst entry)) entries))
         \<and> filter isRemove (trace (snd (rollback e root appName reason w)))
             = filter isRemove (trace w)
               @ map (\<lambda>f. Remove (path_join e root f)) (filter allowListed (map fst entries))
               @ (if filter (\<lambda>entry. \<not> allowListed (fst entry)) entries = [] then [Remove root] else [])"
proof -
  define w3 where "w3 = reportFailure reason w"
  have d3: "dir w3 = Some entries"
    using listing by (simp add: w3_def reportFailure_world)
  have t3: "filter isRemove (trace w3) = filter isRemove (trace w)"
    by (simp add: w3_def reportFailure_world)
  define w4 where "w4 = deleteGenerated e root (map fst entries) w3"
  have same: "filter (\<lambda>entry. \<not> (fst entry \<in> set (map fst entries) \<and> allowListed (fst entry))) entries
              = filter (\<lambda>entry. \<not> allowListed (fst entry)) entries"
    by (rule filter_cong) auto
  have "dir w4 = map_option
      (filter (\<lambda>entry. \<not> (fst entry \<in> set (map fst entries) \<and> allowListed (fst entry)))) (dir w3)"
    unfolding w4_def by (rule deleteGenerated_dir)
  then have d4: "dir w4 = Some (filter (\<lambda>entry. \<not> allowListed (fst entry)) entries)"
    by (simp only: d3 option.map same)
  have t4: "filter isRemove (trace w4)
              = filter isRemove (trace w) @ map (\<lambda>f. Remove (path_join e root f)) (filter allowListed (map fst entries))"
    by (simp add: w4_def deleteGenerated_removes t3)
  have unfold: "rollback e root appName reason w
      = (ProcessExit 1,
         console ''Done.''
           (if filter (\<lambda>entry. \<not> allowListed (fst entry)) entries = []
            then emit (Remove root)
                   ((emit (Chdir (path_dirname e root))
                      (console (''Deleting '' @ appName @ '' / from '' @ path_dirname e root) w4))\<lparr>dir := None\<rparr>)
            else w4))"
    unfolding rollback_def Let_def w3_def [symmetric] d3 option.case w4_def [symmetric] d4
    by simp
  show ?thesis
    by (simp add: unfold emit_def d4 t4)
qed

lemma install_outcome:
  "fst (install e useYarn deps verbose isOnline w) = Resolve ()
   \<or> (\<exists>command. fst (install e useYarn deps verbose isOnline w) = Reject (CommandFailed command))"
  by (simp add: install_def Let_def)

text \<open>
  C1: when the promise chain of \<^verbatim>\<open>run\<close> is rejected (the install subprocess exiting with a
  code other than 0 rejects it, see \<open>install\<close>), the handler deletes from the target
  directory exactly the entries that are \<open>allowListed\<close>: those named \<^verbatim>\<open>package.json\<close> or
  \<^verbatim>\<open>node_modules\<close> and those whose name begins with \<^verbatim>\<open>npm-debug.log\<close>, \<^verbatim>\<open>yarn-error.log\<close> or
  \<^verbatim>\<open>yarn-debug.log\<close>. Every other entry stays, the removals performed are those of the
  allow-listed entries and, if and only if nothing remains, that of the directory itself,
  and the run ends with \<^verbatim>\<open>process.exit(1)\<close>.
\<close>

theorem rollback_on_failure:
  assumes rejected:
      "fst (runChain e root appName version verbose useYarn (console installingMessage w)) = Reject reason"
    and listing:
      "dir (snd (runChain e root appName version verbose useYarn (console installingMessage w))) = Some entries"
  shows "fst (run e root appName version verbose originalDirectory template useYarn w) = ProcessExit 1
         \<and> dir (snd (run e root appName version verbose originalDirectory template useYarn w))
             = (if filter (\<lambda>entry. \<not> allowListed (fst entry)) entries = [] then None
                else Some (filter (\<lambda>entry. \<not> allowListed (fst entry)) entries))
         \<and> filter isRemove (trace (snd (run e root appName version verbose originalDirectory template useYarn w)))
             = filter isRemove
                 (trace (snd (runChain e root appName version verbose useYarn (console installingMessage w))))
               @ map (\<lambda>f. Remove (path_join e root f)) (filter allowListed (map fst entries))
               @ (if filter (\<lambda>entry. \<not> allowListed (fst entry)) entries = [] then [Remove root] else [])"
proof -
  obtain w1 where chain:
      "runChain e root appName version verbose useYarn (console installingMessage w) = (Reject reason, w1)"
    using rejected by (cases "runChain e root appName version verbose useYarn (console installingMessage w)") simp
  have "dir w1 = Some entries" using listing chain by simp
  then have "fst (rollback e root appName reason w1) = ProcessExit 1
         \<and> dir (snd (rollback e root appName reason w1))
             = (if filter (\<lambda>entry. \<not> allowListed (fst entry)) entries = [] then None
                else Some (filter (\<lambda>entry. \<not> allowListed (fst entry)) entries))
         \<and> filter isRemove (trace (snd (rollback e root appName reason w1)))
             = filter isRemove (trace w1)
               @ map (\<lambda>f. Remove (path_join e root f)) (filter allowListed (map fst entries))
               @ (if filter (\<lambda>entry. \<not> allowListed (fst entry)) entries = [] then [Remove root] else [])"
    by (rule rollback_result)
  moreover have "run e root appName version verbose originalDirectory template useYarn w
                   = rollback e root appName reason w1"
    by (simp add: run_def catchIO_def chain)
  ultimately show ?thesis by (simp add: chain)
qed

lemma failed_install_rejected:
  "fst (runChain failingInstallEnv ''/home/user/divi-sample'' ''divi-sample'' None False False
          (console installingMessage preparedWorld))
     = Reject (CommandFailed ''npm install --save --save-exact react react-dom react-scripts'')"
  by code_simp

lemma failed_install_listing:
  "dir (snd (runChain failingInstallEnv ''/home/user/divi-sample'' ''divi-sample'' None False False
          (console installingMessage preparedWorld)))
     = Some [(''.git'', Other),
             (''package.json'',
              Manifest \<lparr>pkg_name = ''divi-sample'', pkg_version = ''0.1.0'', pkg_private = True,
                        dependencies = None, devDependencies = None\<rparr>),
             (''node_modules'', Other), (''npm-debug.log.1234'', Other)]"
  by code_simp

lemma failed_install_remaining:
  "filter (\<lambda>entry. \<not> allowListed (fst entry))
     [(''.git'', Other),
      (''package.json'',
       Manifest \<lparr>pkg_name = ''divi-sample'', pkg_version = ''0.1.0'', pkg_private = True,
                 dependencies = None, devDependencies = None\<rparr>),
      (''node_modules'', Other), (''npm-debug.log.1234'', Other)]
   = [(''.git'', Other)]"
  by code_simp

theorem rollback_on_failure_witness:
  "fst (run failingInstallEnv ''/home/user/divi-sample'' ''divi-sample'' None False
          ''/home/user'' ''/usr/lib/template'' False preparedWorld) = ProcessExit 1
   \<and> dir (snd (run failingInstallEnv ''/home/user/divi-sample'' ''divi-sample'' None False
          ''/home/user'' ''/usr/lib/template'' False preparedWorld)) = Some [(''.git'', Other)]"
  using rollback_on_failure [OF failed_install_rejected failed_install_listing,
      of "''/home/user''" "''/usr/lib/template''"]
  by (simp only: failed_install_remaining) simp

section \<open>A manifest without a required dependency\<close>

lemma sameFiles_refl: "sameFiles w w"
  by (simp add: sameFiles_def)

lemma sameFiles_console: "sameFiles w w' \<Longrightarrow> sameFiles w (console msg w')"
  by (simp add: sameFiles_def)

lemma map_of_assign: "map_of (assign k v obj) = (map_of obj)(k := v)"
  by (cases v) (simp_all add: assign_def update_conv' delete_conv')

lemma makeCaretRange_missing:
  assumes "map_of deps name = None"
  shows "makeCaretRange e deps name w
           = (ProcessExit 1, console (''Missing '' @ name @ '' dependency in package.json'') w)"
  using assms by (simp add: makeCaretRange_def)

lemma makeCaretRange_found:
  assumes "map_of deps name = Some version"
  shows "\<exists>range w'. makeCaretRange e deps name w = (Resolve (AList.update name range deps), w')
                     \<and> sameFiles w w'"
  using assms by (auto simp: makeCaretRange_def Let_def sameFiles_def)

lemma checkNodeVersion_resolved:
  assumes "fst (checkNodeVersion e packageName w) = Resolve ()"
  shows "checkNodeVersion e packageName w = (Resolve (), w)"
  using assms by (auto simp: checkNodeVersion_def split: option.splits if_splits)

lemma missing_messages:
  "''Missing dependencies in package.json'' \<in> set (missingDependencyMessages packageName)"
  "''Unable to find '' @ packageName @ '' in package.json'' \<in> set (missingDependencyMessages packageName)"
  "''Missing '' @ ''react'' @ '' dependency in package.json'' \<in> set (missingDependencyMessages packageName)"
  "''Missing '' @ ''react-dom'' @ '' dependency in package.json'' \<in> set (missingDependencyMessages packageName)"
  by (simp_all add: missingDependencyMessages_def)

lemma fixDependencies_missing:
  assumes manifest: "requireManifest w = Some m" and lacks: "lacksRequired m packageName"
  shows "\<exists>msg w'. fixDependencies e packageName w = (ProcessExit 1, console msg w')
           \<and> msg \<in> set (missingDependencyMessages packageName) \<and> sameFiles w w'"
proof (cases "dependencies m")
  case None
  with manifest have "fixDependencies e packageName w
      = (ProcessExit 1, console ''Missing dependencies in package.json'' w)"
    by (simp add: fixDependencies_def)
  then show ?thesis using missing_messages(1) sameFiles_refl by blast
next
  case (Some deps)
  show ?thesis
  proof (cases "readProperty deps packageName")
    case None
    with manifest Some have "fixDependencies e packageName w
        = (ProcessExit 1, console (''Unable to find '' @ packageName @ '' in package.json'') w)"
      by (simp add: fixDependencies_def)
    then show ?thesis using missing_messages(2) sameFiles_refl by blast
  next
    case (Some packageVersion)
    define dev3 where "dev3 =
      assign ''react-dom'' (map_of (AList.delete packageName deps) ''react-dom'')
        (assign ''react'' (map_of (AList.delete packageName deps) ''react'')
          (setProperty packageName packageVersion
            (case devDependencies m of None \<Rightarrow> [] | Some d \<Rightarrow> d)))"
    define finish where "finish = (\<lambda>dev5. writeManifest
      (m\<lparr>dependencies := Some (AList.delete ''react-dom''
                               (AList.delete ''react'' (AList.delete packageName deps))),
         devDependencies := Some dev5\<rparr>))"
    have unfold: "fixDependencies e packageName w
        = thenIO (makeCaretRange e dev3 ''react'')
            (\<lambda>dev4. thenIO (makeCaretRange e dev4 ''react-dom'') finish) w"
      using manifest \<open>dependencies m = Some deps\<close> Some
      by (simp add: fixDependencies_def Let_def dev3_def finish_def)
    have react: "map_of dev3 ''react'' = (if packageName = ''react'' then None else map_of deps ''react'')"
      by (simp add: dev3_def map_of_assign delete_conv')
    have react_dom:
      "map_of dev3 ''react-dom'' = (if packageName = ''react-dom'' then None else map_of deps ''react-dom'')"
      by (simp add: dev3_def map_of_assign delete_conv')
    from lacks \<open>dependencies m = Some deps\<close> Some
    have gap: "map_of deps ''react'' = None \<or> map_of deps ''react-dom'' = None"
      by (simp add: lacksRequired_def)
    show ?thesis
    proof (cases "map_of dev3 ''react''")
      case None
      then have "makeCaretRange e dev3 ''react'' w
          = (ProcessExit 1, console (''Missing '' @ ''react'' @ '' dependency in package.json'') w)"
        by (rule makeCaretRange_missing)
      then have "fixDependencies e packageName w
          = (ProcessExit 1, console (''Missing '' @ ''react'' @ '' dependency in package.json'') w)"
        by (simp add: unfold thenIO_def)
      then show ?thesis using missing_messages(3) sameFiles_refl by blast
    next
      case (Some version)
      then obtain range w' where first:
          "makeCaretRange e dev3 ''react'' w = (Resolve (AList.update ''react'' range dev3), w')"
        and quiet: "sameFiles w w'"
        using makeCaretRange_found [of dev3 "''react''" version e w] by blast
      from Some react gap have "map_of deps ''react-dom'' = None"
        by (auto split: if_splits)
      with react_dom have "map_of (AList.update ''react'' range dev3) ''react-dom'' = None"
        by (simp add: update_conv')
      then have "makeCaretRange e (AList.update ''react'' range dev3) ''react-dom'' w'
          = (ProcessExit 1, console (''Missing '' @ ''react-dom'' @ '' dependency in package.json'') w')"
        by (rule makeCaretRange_missing)
      with first have "fixDependencies e packageName w
          = (ProcessExit 1, console (''Missing '' @ ''react-dom'' @ '' dependency in package.json'') w')"
        by (simp add: unfold thenIO_def)
      then show ?thesis using missing_messages(4) quiet by blast
    qed
  qed
qed

text \<open>
  A resolved name that \<^verbatim>\<open>Object.prototype\<close> defines is never missing: for the name
  \<^verbatim>\<open>constructor\<close> the read of \<^verbatim>\<open>dependencies[packageName]\<close> gives the inherited function,
  the program does not exit there, and with \<^verbatim>\<open>react\<close> and \<^verbatim>\<open>react-dom\<close> present it
  rewrites the manifest.
\<close>

lemma inherited_name_not_missing:
  "\<not> lacksRequired installedManifest ''constructor''
   \<and> fst (fixDependencies demoEnv ''constructor''
            \<lparr>dir = Some [(''package.json'', Manifest installedManifest)], trace = []\<rparr>) = Resolve ()"
  by code_simp

text \<open>
  C2, as stated, fails: \<^verbatim>\<open>fixDependencies\<close> and \<^verbatim>\<open>makeCaretRange\<close> answer a missing entry
  with \<^verbatim>\<open>process.exit(1)\<close>, which ends the process inside the promise callback, so the
  \<^verbatim>\<open>.catch\<close> handler never runs. With a package manager that succeeds but records no
  \<^verbatim>\<open>react\<close>, the run ends with status 1 while \<^verbatim>\<open>package.json\<close> and \<^verbatim>\<open>node_modules\<close> are
  still in the target directory and nothing has been removed.
\<close>

theorem missing_dependency_counterexample:
  "lacksRequired incompleteManifest ''react-scripts''
   \<and> requireManifest (snd (installStage missingReactEnv None False False
        (console installingMessage preparedWorld))) = Some incompleteManifest
   \<and> fst (run missingReactEnv ''/home/user/divi-sample'' ''divi-sample'' None False
        ''/home/user'' ''/usr/lib/template'' False preparedWorld) = ProcessExit 1
   \<and> map_option (map fst) (dir (snd (run missingReactEnv ''/home/user/divi-sample'' ''divi-sample''
        None False ''/home/user'' ''/usr/lib/template'' False preparedWorld)))
       = Some [''.git'', ''package.json'', ''node_modules'']
   \<and> filter isRemove (trace (snd (run missingReactEnv ''/home/user/divi-sample'' ''divi-sample''
        None False ''/home/user'' ''/usr/lib/template'' False preparedWorld))) = []"
  by code_simp

text \<open>
  C2, amended: for every manifest that, after the installation has succeeded and the
  version gate has passed, lacks a required dependency entry (no \<^verbatim>\<open>dependencies\<close> at
  all, or a read of \<^verbatim>\<open>undefined\<close> for the resolved package, \<^verbatim>\<open>react\<close> or \<^verbatim>\<open>react-dom\<close>), the
  run prints the missing-dependency message as its last action and ends with
  \<^verbatim>\<open>process.exit(1)\<close>, and no rollback takes place: the target directory is as the
  installation left it and nothing is removed.
\<close>

theorem missing_dependency_exits:
  assumes installed:
      "fst (installStage e version verbose useYarn (console installingMessage w)) = Resolve packageName"
    and gate:
      "fst (checkNodeVersion e packageName
              (snd (installStage e version verbose useYarn (console installingMessage w)))) = Resolve ()"
    and manifest:
      "requireManifest (snd (installStage e version verbose useYarn (console installingMessage w))) = Some m"
    and lacks: "lacksRequired m packageName"
  shows "fst (run e root appName version verbose originalDirectory template useYarn w) = ProcessExit 1
         \<and> sameFiles (snd (installStage e version verbose useYarn (console installingMessage w)))
              (snd (run e root appName version verbose originalDirectory template useYarn w))
         \<and> (\<exists>msg w'. snd (run e root appName version verbose originalDirectory template useYarn w)
                         = console msg w'
                \<and> msg \<in> set (missingDependencyMessages packageName)
                \<and> sameFiles (snd (installStage e version verbose useYarn (console installingMessage w))) w')"
proof -
  obtain w1 where stage:
      "installStage e version verbose useYarn (console installingMessage w) = (Resolve packageName, w1)"
    using installed by (cases "installStage e version verbose useYarn (console installingMessage w)") simp
  have node: "checkNodeVersion e packageName w1 = (Resolve (), w1)"
    using gate stage by (intro checkNodeVersion_resolved) simp
  have "requireManifest w1 = Some m" using manifest stage by simp
  then obtain msg w' where fixed: "fixDependencies e packageName w1 = (ProcessExit 1, console msg w')"
    and printed: "msg \<in> set (missingDependencyMessages packageName)"
    and quiet: "sameFiles w1 w'"
    using fixDependencies_missing [OF _ lacks, of w1 e] by blast
  have "runChain e root appName version verbose useYarn (console installingMessage w)
          = (ProcessExit 1, console msg w')"
    by (simp add: runChain_def setupStage_def thenIO_def stage node fixed)
  then have result: "run e root appName version verbose originalDirectory template useYarn w
                       = (ProcessExit 1, console msg w')"
    by (simp add: run_def catchIO_def)
  have "sameFiles w1 (console msg w')" using quiet by (rule sameFiles_console)
  with result stage printed quiet show ?thesis by auto
qed

lemma missing_react_installed:
  "fst (installStage missingReactEnv None False False (console installingMessage preparedWorld))
     = Resolve ''react-scripts''"
  by code_simp

lemma missing_react_gate:
  "fst (checkNodeVersion missingReactEnv ''react-scripts''
          (snd (installStage missingReactEnv None False False (console installingMessage preparedWorld))))
     = Resolve ()"
  by code_simp

lemma missing_react_manifest:
  "requireManifest (snd (installStage missingReactEnv None False False
      (console installingMessage preparedWorld))) = Some incompleteManifest"
  by code_simp

lemma missing_react_lacks: "lacksRequired incompleteManifest ''react-scripts''"
  by code_simp

theorem missing_dependency_exits_witness:
  "fst (run missingReactEnv ''/home/user/divi-sample'' ''divi-sample'' None False
          ''/home/user'' ''/usr/lib/template'' False preparedWorld) = ProcessExit 1
   \<and> sameFiles (snd (installStage missingReactEnv None False False (console installingMessage preparedWorld)))
        (snd (run missingReactEnv ''/home/user/divi-sample'' ''divi-sample'' None False
          ''/home/user'' ''/usr/lib/template'' False preparedWorld))
   \<and> (\<exists>msg w'. snd (run missingReactEnv ''/home/user/divi-sample'' ''divi-sample'' None False
                       ''/home/user'' ''/usr/lib/template'' False preparedWorld) = console msg w'
          \<and> msg \<in> set (missingDependencyMessages ''react-scripts'')
          \<and> sameFiles (snd (installStage missingReactEnv None False False
                               (console installingMessage preparedWorld))) w')"
  by (rule missing_dependency_exits [OF missing_react_installed missing_react_gate
      missing_react_manifest missing_react_lacks])

end
